theory Spec2Isabelle
  imports Complex_Main "HOL-Library.Word"
begin

section \<open>Numbers, bytes and tensors\<close>

text \<open>
  A JavaScript number held in a \<open>Float32Array\<close> (or read from one) is modelled by its value:
  not-a-number, the two infinities, or a rational (every finite float is a rational).
  Only comparisons matter for the code below; rounding is not modelled.
  Reading a typed array out of range yields \<open>undefined\<close>, which compares like \<open>NaN\<close> and is
  stored as \<open>NaN\<close>.
\<close>

datatype f32 = NaN | NegInf | Fin rat | PosInf

text \<open>The JavaScript comparison \<open>a > b\<close>.\<close>

fun f32_gt :: "f32 \<Rightarrow> f32 \<Rightarrow> bool" where
  "f32_gt NaN b = False"
| "f32_gt a NaN = False"
| "f32_gt PosInf b = (b \<noteq> PosInf)"
| "f32_gt NegInf b = False"
| "f32_gt (Fin a) (Fin b) = (b < a)"
| "f32_gt (Fin a) NegInf = True"
| "f32_gt (Fin a) PosInf = False"

text \<open>\<open>xs[i]\<close> on a \<open>Float32Array\<close>: \<open>undefined\<close> (here \<open>NaN\<close>) out of range.\<close>

definition f32_at :: "f32 list \<Rightarrow> nat \<Rightarrow> f32" where
  "f32_at xs i = (if i < length xs then xs ! i else NaN)"

text \<open>\<open>x / w\<close> and \<open>x * n\<close> for a non-negative integer on the right.\<close>

fun f32_div_nat :: "f32 \<Rightarrow> nat \<Rightarrow> f32" where
  "f32_div_nat NaN w = NaN"
| "f32_div_nat PosInf w = PosInf"
| "f32_div_nat NegInf w = NegInf"
| "f32_div_nat (Fin r) w =
     (if w = 0 then (if r = 0 then NaN else if 0 < r then PosInf else NegInf)
      else Fin (r / of_nat w))"

fun f32_mul_nat :: "f32 \<Rightarrow> nat \<Rightarrow> f32" where
  "f32_mul_nat NaN n = NaN"
| "f32_mul_nat PosInf n = (if n = 0 then NaN else PosInf)"
| "f32_mul_nat NegInf n = (if n = 0 then NaN else NegInf)"
| "f32_mul_nat (Fin r) n = Fin (r * of_nat n)"

type_synonym byte = "8 word"

text \<open>\<open>xs[i]\<close> on a \<open>Uint8ClampedArray\<close>: \<open>undefined\<close> (here \<open>None\<close>) out of range.\<close>

definition u8_at :: "byte list \<Rightarrow> nat \<Rightarrow> byte option" where
  "u8_at xs i = (if i < length xs then Some (xs ! i) else None)"

text \<open>An ONNX tensor whose shape the code never inspects (embeddings, encoder input).\<close>

record tensor =
  tdata :: "f32 list"
  tdims :: "nat list"

text \<open>The decoder's mask output: a rank-4 tensor \<open>[batch, num_masks, height, width]\<close>.\<close>

record tensor4 =
  data4 :: "f32 list"
  dims4 :: "nat \<times> nat \<times> nat \<times> nat"

datatype seg_code = NETWORK_ERROR | TIMEOUT | INVALID_RESPONSE | SERVER_ERROR | ABORTED

text \<open>
  Thrown values: a plain \<open>Error\<close>, a \<open>DOMException\<close> named \<open>AbortError\<close> or
  \<open>DataCloneError\<close>, and the \<open>SegmentationError\<close> class of provider.ts (message, code,
  details.requestType).
\<close>

datatype error =
    Error string
  | AbortError string
  | DataCloneError string
  | SegmentationError string seg_code "string option"

fun error_message :: "error \<Rightarrow> string" where
  "error_message (Error m) = m"
| "error_message (AbortError m) = m"
| "error_message (DataCloneError m) = m"
| "error_message (SegmentationError m c d) = m"

text \<open>
  Binary data that crosses to the worker. An \<open>ArrayBuffer\<close> of the page that the caller of
  the provider still holds is known by its number, \<open>Page b\<close>; \<open>Fresh\<close> is a buffer that was
  allocated for one message and that nothing else refers to (\<open>new Float32Array(previousMask)\<close>,
  the model data just loaded). A binary field of a message, an \<open>ArrayBuffer\<close> or a typed
  array over one, is its contents and the buffer they are in.
\<close>

datatype buffer = Fresh | Page nat

record 'a typed_array =
  buf :: buffer
  elems :: "'a list"

text \<open>The decimal digits of a number, as a template literal prints it (\<open>`img_${n}`\<close>).\<close>

function string_of_nat :: "nat \<Rightarrow> string" where
  "string_of_nat n =
     (if n < 10 then [char_of (48 + n)]
      else string_of_nat (n div 10) @ [char_of (48 + n mod 10)])"
  by pat_completeness auto
termination
  by (relation "measure id") auto

declare string_of_nat.simps [simp del]

section \<open>image-utils.ts\<close>

definition SAM2_INPUT_SIZE :: nat where
  "SAM2_INPUT_SIZE = 1024"

datatype point_type = Fg | Bg

record SAM2Point =
  px :: f32
  py :: f32
  ptype :: point_type

definition scalePoint :: "f32 \<Rightarrow> f32 \<Rightarrow> nat \<Rightarrow> nat \<Rightarrow> f32 \<times> f32" where
  "scalePoint x y originalWidth originalHeight =
     (f32_mul_nat (f32_div_nat x originalWidth) SAM2_INPUT_SIZE,
      f32_mul_nat (f32_div_nat y originalHeight) SAM2_INPUT_SIZE)"

text \<open>The coordinate tensor \<open>[1, N, 2]\<close> and the label tensor \<open>[1, N]\<close> (their data).\<close>

definition createPointCoordsTensor :: "SAM2Point list \<Rightarrow> f32 list" where
  "createPointCoordsTensor points = concat (map (\<lambda>p. [px p, py p]) points)"

definition createPointLabelsTensor :: "SAM2Point list \<Rightarrow> f32 list" where
  "createPointLabelsTensor points =
     map (\<lambda>p. if ptype p = Fg then Fin 1 else Fin 0) points"

definition createMaskInputTensor :: "f32 list option \<Rightarrow> f32 list" where
  "createMaskInputTensor maskInput =
     (case maskInput of None \<Rightarrow> replicate (256 * 256) (Fin 0) | Some d \<Rightarrow> d)"

definition createHasMaskTensor :: "bool \<Rightarrow> f32 list" where
  "createHasMaskTensor hasMask = [if hasMask then Fin 1 else Fin 0]"

text \<open>
  \<open>processMaskLogits\<close>: slice plane \<open>maskIndex\<close> (clamped into range) and threshold it.
  Returns \<open>(mask, width, height)\<close>.
\<close>

definition processMaskLogits :: "tensor4 \<Rightarrow> nat \<Rightarrow> f32 \<Rightarrow> byte list \<times> nat \<times> nat" where
  "processMaskLogits logits maskIndex threshold =
     (case dims4 logits of (batch, numMasks, height, width) \<Rightarrow>
        let maskSize = height * width;
            maskIndex' = (if numMasks \<le> maskIndex
                          then nat (max 0 (min (int maskIndex) (int numMasks - 1)))
                          else maskIndex);
            maskOffset = maskIndex' * maskSize
        in (map (\<lambda>i. if f32_gt (f32_at (data4 logits) (maskOffset + i)) threshold
                      then 255 else 0) [0..<maskSize],
            width, height))"

text \<open>
  The browser's raster scaling (\<open>drawImage\<close> of a source canvas onto a destination canvas,
  then \<open>getImageData\<close>) is outside the repository: it is a parameter, a function from the
  source RGBA bytes and the four sizes to the destination RGBA bytes.
\<close>

type_synonym draw_image = "byte list \<Rightarrow> nat \<Rightarrow> nat \<Rightarrow> nat \<Rightarrow> nat \<Rightarrow> byte list"

text \<open>
  The source \<open>ImageData\<close> of \<open>resizeMask\<close> after its loop: \<open>createImageData\<close> gives
  \<open>w*h*4\<close> zero bytes, pixel \<open>i\<close> of the mask is written as \<open>(m, m, m, 255)\<close>, and writes past
  the end of the array are ignored.
\<close>

definition mask_to_rgba :: "byte list \<Rightarrow> nat \<Rightarrow> nat \<Rightarrow> byte list" where
  "mask_to_rgba msk w h =
     map (\<lambda>k. if k div 4 < length msk
               then (if k mod 4 = 3 then 255 else msk ! (k div 4))
               else 0) [0..<w * h * 4]"

text \<open>
  \<open>resizeMask\<close>. \<open>createImageData\<close> and \<open>getImageData\<close> throw an \<open>IndexSizeError\<close> for a
  zero width or height.
\<close>

definition resizeMask ::
  "draw_image \<Rightarrow> byte list \<Rightarrow> nat \<Rightarrow> nat \<Rightarrow> nat \<Rightarrow> nat \<Rightarrow> error + byte list" where
  "resizeMask draw msk maskWidth maskHeight targetWidth targetHeight =
     (if maskWidth = 0 \<or> maskHeight = 0 then Inl (Error ''IndexSizeError'')
      else if targetWidth = 0 \<or> targetHeight = 0 then Inl (Error ''IndexSizeError'')
      else
        let dst = draw (mask_to_rgba msk maskWidth maskHeight)
                    maskWidth maskHeight targetWidth targetHeight
        in Inr (map (\<lambda>i. case u8_at dst (i * 4) of
                            None \<Rightarrow> 0
                          | Some v \<Rightarrow> if 127 < v then 255 else 0)
                  [0..<targetWidth * targetHeight]))"

section \<open>sam2-core.ts\<close>

datatype ExecutionProvider = Webgpu | Wasm

record SAM2Options =
  preferredProvider :: "ExecutionProvider option"
  verbose :: "bool option"

record SAM2MaskCandidate =
  cindex :: nat
  iouScore :: f32
  cmask :: "byte list"
  cwidth :: nat
  cheight :: nat
  clogits :: "f32 list"

record timing =
  t_encode :: "rat option"
  t_decode :: rat
  t_total :: rat

record SAM2Result =
  rmask :: "byte list"
  rwidth :: nat
  rheight :: nat
  rlogits :: "f32 list option"
  allMasks :: "SAM2MaskCandidate list option"
  selectedMaskIndex :: "nat option"
  rtiming :: timing

text \<open>What the encoder and decoder sessions take and return.\<close>

record encoder_out =
  e_image_embed :: "tensor option"
  e_high_res_feats_0 :: "tensor option"
  e_high_res_feats_1 :: "tensor option"

record feeds =
  image_embed :: tensor
  point_coords :: "f32 list"
  point_labels :: "f32 list"
  mask_input :: "f32 list"
  has_mask_input :: "f32 list"
  high_res_feats_0 :: "tensor option"
  high_res_feats_1 :: "tensor option"

record decoder_out =
  masks :: "tensor4 option"
  low_res_masks :: "tensor4 option"
  iou_predictions :: "f32 list option"
  iou_pred :: "f32 list option"

text \<open>
  The ONNX runtime, the pretrained models, the canvas and the clock are outside the
  repository. They are the fields of \<open>ort_env\<close>: whether a session can be created for a
  provider, what a run of each session returns (or the message it throws), the canvas-based
  \<open>preprocessImageWithOrt\<close>, the raster scaling, and the two measured durations
  (\<open>performance.now() - startTime\<close>).
\<close>

record ort_env =
  createSession :: "ExecutionProvider \<Rightarrow> byte list \<Rightarrow> error + unit"
  encoderRun :: "tensor \<Rightarrow> error + encoder_out"
  decoderRun :: "feeds \<Rightarrow> error + decoder_out"
  preprocessImage :: "byte list \<Rightarrow> nat \<Rightarrow> nat \<Rightarrow> error + tensor"
  drawImage :: draw_image
  encodeElapsed :: rat
  decodeElapsed :: rat

text \<open>
  The fields of class \<open>SAM2Core\<close>. A session is present or null; the two last fields are
  not in the source: they record every input handed to \<open>encoderSession.run\<close> and
  \<open>decoderSession.run\<close>, so that what the engine passed to the models can be stated.
\<close>

record SAM2Core =
  ort_loaded :: bool
  encoderSession :: bool
  decoderSession :: bool
  imageEmbeddings :: "string \<rightharpoonup> tensor"
  highResFeatures :: "string \<rightharpoonup> tensor list"
  cachedImageData :: "string \<rightharpoonup> byte list \<times> nat \<times> nat"
  coreProvider :: ExecutionProvider
  coreVerbose :: bool
  encoderRuns :: "tensor list"
  decoderRuns :: "feeds list"

definition new_SAM2Core :: SAM2Core where
  "new_SAM2Core =
     \<lparr>ort_loaded = False, encoderSession = False, decoderSession = False,
      imageEmbeddings = Map.empty, highResFeatures = Map.empty,
      cachedImageData = Map.empty, coreProvider = Wasm, coreVerbose = False,
      encoderRuns = [], decoderRuns = []\<rparr>"

definition disposeSessions :: "SAM2Core \<Rightarrow> SAM2Core" where
  "disposeSessions c = c\<lparr>encoderSession := False, decoderSession := False\<rparr>"

text \<open>The body of the \<open>for\<close> loop of \<open>createSessions\<close>, one provider after the other.\<close>

fun createSessions_loop ::
  "ort_env \<Rightarrow> byte list \<Rightarrow> byte list \<Rightarrow> ExecutionProvider list \<Rightarrow> SAM2Core
     \<Rightarrow> (error + ExecutionProvider) \<times> SAM2Core" where
  "createSessions_loop env encoderData decoderData [] c =
     (Inl (Error ''Failed to create ONNX sessions with any available provider''), c)"
| "createSessions_loop env encoderData decoderData (p # ps) c =
     (case createSession env p encoderData of
        Inl e \<Rightarrow> createSessions_loop env encoderData decoderData ps (disposeSessions c)
      | Inr u \<Rightarrow>
          (case createSession env p decoderData of
             Inl e \<Rightarrow>
               createSessions_loop env encoderData decoderData ps
                 (disposeSessions (c\<lparr>encoderSession := True\<rparr>))
           | Inr u' \<Rightarrow> (Inr p, c\<lparr>encoderSession := True, decoderSession := True\<rparr>)))"

definition createSessions ::
  "ort_env \<Rightarrow> byte list \<Rightarrow> byte list \<Rightarrow> ExecutionProvider \<Rightarrow> SAM2Core
     \<Rightarrow> (error + ExecutionProvider) \<times> SAM2Core" where
  "createSessions env encoderData decoderData preferred c =
     (if \<not> ort_loaded c then (Inl (Error ''ONNX Runtime not loaded''), c)
      else createSessions_loop env encoderData decoderData
             (if preferred = Webgpu then [Webgpu, Wasm] else [Wasm]) c)"

definition core_initialize ::
  "ort_env \<Rightarrow> byte list \<Rightarrow> byte list \<Rightarrow> SAM2Options \<Rightarrow> SAM2Core
     \<Rightarrow> (error + ExecutionProvider) \<times> SAM2Core" where
  "core_initialize env encoderData decoderData options c =
     (let c1 = c\<lparr>coreVerbose := True, ort_loaded := True\<rparr>
      in case createSessions env encoderData decoderData
                (case preferredProvider options of None \<Rightarrow> Webgpu | Some p \<Rightarrow> p) c1 of
           (Inl e, c2) \<Rightarrow> (Inl e, c2)
         | (Inr p, c2) \<Rightarrow> (Inr p, c2\<lparr>coreProvider := p\<rparr>))"

text \<open>\<open>encodeImage\<close>: returns the encoding time in milliseconds.\<close>

definition encodeImage ::
  "ort_env \<Rightarrow> string \<Rightarrow> byte list \<Rightarrow> nat \<Rightarrow> nat \<Rightarrow> SAM2Core \<Rightarrow> (error + rat) \<times> SAM2Core" where
  "encodeImage env imageId imageData width height c =
     (if \<not> encoderSession c \<or> \<not> ort_loaded c then (Inl (Error ''SAM2 not initialized''), c)
      else if imageEmbeddings c imageId \<noteq> None then (Inr 0, c)
      else
        case preprocessImage env imageData width height of
          Inl e \<Rightarrow> (Inl e, c)
        | Inr inputTensor \<Rightarrow>
            let c1 = c\<lparr>encoderRuns := encoderRuns c @ [inputTensor]\<rparr>
            in case encoderRun env inputTensor of
                 Inl e \<Rightarrow> (Inl e, c1)
               | Inr results \<Rightarrow>
                   let c2 = c1\<lparr>cachedImageData :=
                                 (cachedImageData c1)(imageId \<mapsto> (imageData, width, height))\<rparr>;
                       c3 = (case e_image_embed results of
                               None \<Rightarrow> c2
                             | Some emb \<Rightarrow>
                                 c2\<lparr>imageEmbeddings := (imageEmbeddings c2)(imageId \<mapsto> emb)\<rparr>);
                       highResFeats =
                         (case e_high_res_feats_0 results of None \<Rightarrow> [] | Some t \<Rightarrow> [t]) @
                         (case e_high_res_feats_1 results of None \<Rightarrow> [] | Some t \<Rightarrow> [t]);
                       c4 = (if 0 < length highResFeats
                             then c3\<lparr>highResFeatures :=
                                       (highResFeatures c3)(imageId \<mapsto> highResFeats)\<rparr>
                             else c3)
                   in (Inr (encodeElapsed env), c4))"

text \<open>
  The selection loop of \<open>decode\<close>:
  \<open>for (i = 0; i < iouData.length; i++) if (iouData[i] > maxIoU) { maxIoU = iouData[i]; bestMaskIndex = i; }\<close>
  run on the rest of the array from index \<open>i\<close>.
\<close>

fun best_loop :: "f32 list \<Rightarrow> nat \<Rightarrow> f32 \<Rightarrow> nat \<Rightarrow> nat" where
  "best_loop [] i maxIoU bestMaskIndex = bestMaskIndex"
| "best_loop (v # vs) i maxIoU bestMaskIndex =
     (if f32_gt v maxIoU then best_loop vs (Suc i) v i
      else best_loop vs (Suc i) maxIoU bestMaskIndex)"

definition selectBestMask :: "f32 list option \<Rightarrow> nat" where
  "selectBestMask iouTensor =
     (case iouTensor of
        None \<Rightarrow> 0
      | Some iouData \<Rightarrow> if 1 < length iouData then best_loop iouData 0 NegInf 0 else 0)"

text \<open>The feeds \<open>decode\<close> builds for the decoder session.\<close>

definition decode_feeds ::
  "SAM2Core \<Rightarrow> string \<Rightarrow> tensor \<Rightarrow> SAM2Point list \<Rightarrow> nat \<Rightarrow> nat \<Rightarrow> f32 list option \<Rightarrow> feeds" where
  "decode_feeds c imageId embeddings points originalWidth originalHeight previousMask =
     (let scaledPoints =
            map (\<lambda>p. case scalePoint (px p) (py p) originalWidth originalHeight of
                       (sx, sy) \<Rightarrow> \<lparr>px = sx, py = sy, ptype = ptype p\<rparr>) points;
          highResFeats = highResFeatures c imageId
      in \<lparr>image_embed = embeddings,
          point_coords = createPointCoordsTensor scaledPoints,
          point_labels = createPointLabelsTensor scaledPoints,
          mask_input = createMaskInputTensor previousMask,
          has_mask_input = createHasMaskTensor (previousMask \<noteq> None),
          high_res_feats_0 =
            (case highResFeats of None \<Rightarrow> None | Some fs \<Rightarrow> if 0 < length fs then Some (fs ! 0) else None),
          high_res_feats_1 =
            (case highResFeats of None \<Rightarrow> None | Some fs \<Rightarrow> if 1 < length fs then Some (fs ! 1) else None)\<rparr>)"

text \<open>The logits of plane \<open>k\<close>: \<open>maskLogits[j] = fullLogits[k * maskSize + j]\<close>.\<close>

definition plane_logits :: "f32 list \<Rightarrow> nat \<Rightarrow> nat \<Rightarrow> f32 list" where
  "plane_logits fullLogits maskSize k =
     map (\<lambda>j. f32_at fullLogits (k * maskSize + j)) [0..<maskSize]"

text \<open>The loop that builds the candidates, indices \<open>is\<close> in order; the first throw ends it.\<close>

fun build_candidates ::
  "draw_image \<Rightarrow> tensor4 \<Rightarrow> f32 list option \<Rightarrow> nat \<Rightarrow> nat \<Rightarrow> nat \<Rightarrow> nat \<Rightarrow> nat \<Rightarrow> nat list
     \<Rightarrow> error + SAM2MaskCandidate list" where
  "build_candidates draw maskTensor iouData maskSize maskWidth maskHeight
       originalWidth originalHeight [] = Inr []"
| "build_candidates draw maskTensor iouData maskSize maskWidth maskHeight
       originalWidth originalHeight (i # is) =
     (case resizeMask draw (fst (processMaskLogits maskTensor i (Fin 0)))
             maskWidth maskHeight originalWidth originalHeight of
        Inl e \<Rightarrow> Inl e
      | Inr resizedMask \<Rightarrow>
          (case build_candidates draw maskTensor iouData maskSize maskWidth maskHeight
                  originalWidth originalHeight is of
             Inl e \<Rightarrow> Inl e
           | Inr rest \<Rightarrow>
               Inr (\<lparr>cindex = i,
                     iouScore = (case iouData of None \<Rightarrow> Fin 1 | Some d \<Rightarrow> f32_at d i),
                     cmask = resizedMask,
                     cwidth = originalWidth,
                     cheight = originalHeight,
                     clogits = plane_logits (data4 maskTensor) maskSize i\<rparr> # rest)))"

text \<open>\<open>results.masks ?? results.low_res_masks\<close> and \<open>results.iou_predictions ?? results.iou_pred\<close>.\<close>

definition mask_output :: "decoder_out \<Rightarrow> tensor4 option" where
  "mask_output results =
     (case masks results of Some t \<Rightarrow> Some t | None \<Rightarrow> low_res_masks results)"

definition iou_output :: "decoder_out \<Rightarrow> f32 list option" where
  "iou_output results =
     (case iou_predictions results of Some d \<Rightarrow> Some d | None \<Rightarrow> iou_pred results)"

text \<open>
  The statements of \<open>decode\<close> after the decoder has run: select, threshold, resize, build
  the candidates and the result. The debug helpers return at once (\<open>DEBUG_SAM2\<close> is
  \<open>false\<close>) and are left out.
\<close>

definition decode_output :: "ort_env \<Rightarrow> decoder_out \<Rightarrow> nat \<Rightarrow> nat \<Rightarrow> error + SAM2Result" where
  "decode_output env results originalWidth originalHeight =
     (case mask_output results of
        None \<Rightarrow> Inl (Error ''No mask output from decoder'')
      | Some maskTensor \<Rightarrow>
          let iouTensor = iou_output results;
              bestMaskIndex = selectBestMask iouTensor
          in case processMaskLogits maskTensor bestMaskIndex (Fin 0) of
               (rawMask, maskWidth, maskHeight) \<Rightarrow>
                 let maskSize = maskWidth * maskHeight;
                     selectedMaskLogits = plane_logits (data4 maskTensor) maskSize bestMaskIndex
                 in case resizeMask (drawImage env) rawMask maskWidth maskHeight
                           originalWidth originalHeight of
                      Inl e \<Rightarrow> Inl e
                    | Inr finalMask \<Rightarrow>
                        let numMasks = (case iouTensor of None \<Rightarrow> 1 | Some d \<Rightarrow> length d)
                        in case build_candidates (drawImage env) maskTensor iouTensor
                                  maskSize maskWidth maskHeight
                                  originalWidth originalHeight [0..<numMasks] of
                             Inl e \<Rightarrow> Inl e
                           | Inr candidates \<Rightarrow>
                               Inr \<lparr>rmask = finalMask,
                                    rwidth = originalWidth,
                                    rheight = originalHeight,
                                    rlogits = Some selectedMaskLogits,
                                    allMasks = Some candidates,
                                    selectedMaskIndex = Some bestMaskIndex,
                                    rtiming = \<lparr>t_encode = None,
                                               t_decode = decodeElapsed env,
                                               t_total = decodeElapsed env\<rparr>\<rparr>)"

text \<open>\<open>decode\<close>: the checks, the feeds, the run of the decoder session, and the rest.\<close>

definition decode ::
  "ort_env \<Rightarrow> string \<Rightarrow> SAM2Point list \<Rightarrow> nat \<Rightarrow> nat \<Rightarrow> f32 list option \<Rightarrow> SAM2Core
     \<Rightarrow> (error + SAM2Result) \<times> SAM2Core" where
  "decode env imageId points originalWidth originalHeight previousMask c =
     (if \<not> decoderSession c \<or> \<not> ort_loaded c then (Inl (Error ''SAM2 not initialized''), c)
      else case imageEmbeddings c imageId of
        None \<Rightarrow>
          (Inl (Error (''No embeddings found for image '' @ imageId @ ''. Call encodeImage first.'')), c)
      | Some embeddings \<Rightarrow>
          let fd = decode_feeds c imageId embeddings points originalWidth originalHeight previousMask;
              c1 = c\<lparr>decoderRuns := decoderRuns c @ [fd]\<rparr>
          in case decoderRun env fd of
               Inl e \<Rightarrow> (Inl e, c1)
             | Inr results \<Rightarrow>
                 (case decode_output env results originalWidth originalHeight of
                    Inl e \<Rightarrow> (Inl e, c1)
                  | Inr result \<Rightarrow> (Inr result, c1)))"

text \<open>\<open>segment\<close>: \<open>encodeImage\<close>, then \<open>decode\<close>, then the timing is completed.\<close>

definition core_segment ::
  "ort_env \<Rightarrow> string \<Rightarrow> byte list \<Rightarrow> nat \<Rightarrow> nat \<Rightarrow> SAM2Point list \<Rightarrow> f32 list option
     \<Rightarrow> SAM2Core \<Rightarrow> (error + SAM2Result) \<times> SAM2Core" where
  "core_segment env imageId imageData width height points previousMask c =
     (case encodeImage env imageId imageData width height c of
        (Inl e, c1) \<Rightarrow> (Inl e, c1)
      | (Inr encodeTime, c1) \<Rightarrow>
          (case decode env imageId points width height previousMask c1 of
             (Inl e, c2) \<Rightarrow> (Inl e, c2)
           | (Inr result, c2) \<Rightarrow>
               (Inr (result\<lparr>rtiming := (rtiming result)
                       \<lparr>t_encode := Some encodeTime,
                        t_total := encodeTime + t_decode (rtiming result)\<rparr>\<rparr>), c2)))"

definition clearImageCache :: "string \<Rightarrow> SAM2Core \<Rightarrow> SAM2Core" where
  "clearImageCache imageId c =
     c\<lparr>imageEmbeddings := (imageEmbeddings c)(imageId := None),
       highResFeatures := (highResFeatures c)(imageId := None)\<rparr>"

definition clearAllCaches :: "SAM2Core \<Rightarrow> SAM2Core" where
  "clearAllCaches c = c\<lparr>imageEmbeddings := Map.empty, highResFeatures := Map.empty\<rparr>"

definition isInitialized :: "SAM2Core \<Rightarrow> bool" where
  "isInitialized c = (encoderSession c \<and> decoderSession c)"

definition core_dispose :: "SAM2Core \<Rightarrow> SAM2Core" where
  "core_dispose c = disposeSessions (clearAllCaches c)"

section \<open>sam2-worker.ts\<close>

datatype WorkerRequestMessage =
    ReqInitialize "byte typed_array" "byte typed_array" "SAM2Options option"
  | ReqEncode string "byte typed_array" nat nat
  | ReqDecode string "SAM2Point list" nat nat "f32 typed_array option"
  | ReqSegment string "byte typed_array" nat nat "SAM2Point list" "f32 typed_array option"
  | ReqClearCache "string option"
  | ReqDispose
  | ReqGetStatus

text \<open>The \<open>type\<close> tag of a request.\<close>

fun request_type :: "WorkerRequestMessage \<Rightarrow> string" where
  "request_type (ReqInitialize e d opts) = ''initialize''"
| "request_type (ReqEncode iid img w h) = ''encode''"
| "request_type (ReqDecode iid pts w h prev) = ''decode''"
| "request_type (ReqSegment iid img w h pts prev) = ''segment''"
| "request_type (ReqClearCache iid) = ''clearCache''"
| "request_type ReqDispose = ''dispose''"
| "request_type ReqGetStatus = ''getStatus''"

text \<open>
  Responses. \<open>decoded\<close> and \<open>segmented\<close> carry the fields of the engine's result, copied one
  by one (\<open>WorkerMaskCandidate\<close> mirrors \<open>SAM2MaskCandidate\<close>); \<open>debug\<close> carries the name of a
  debug image.
\<close>

datatype WorkerResponseMessage =
    Initialized ExecutionProvider
  | Encoded string rat
  | Decoded string SAM2Result
  | Segmented string SAM2Result
  | CacheCleared "string option"
  | Disposed
  | Status bool "ExecutionProvider option"
  | ErrorResponse string string
  | DebugMsg string

text \<open>The worker's global: \<open>let sam2: SAM2Core | null\<close>.\<close>

record worker =
  sam2 :: "SAM2Core option"

definition new_worker :: worker where
  "new_worker = \<lparr>sam2 = None\<rparr>"

definition handleInitialize ::
  "ort_env \<Rightarrow> byte list \<Rightarrow> byte list \<Rightarrow> SAM2Options option \<Rightarrow> worker
     \<Rightarrow> (error + WorkerResponseMessage) \<times> worker" where
  "handleInitialize env encoderData decoderData opts w =
     (case core_initialize env encoderData decoderData
             (case opts of None \<Rightarrow> \<lparr>preferredProvider = None, verbose = None\<rparr> | Some v \<Rightarrow> v)
             new_SAM2Core of
        (Inl e, c) \<Rightarrow> (Inl e, w\<lparr>sam2 := Some c\<rparr>)
      | (Inr provider, c) \<Rightarrow> (Inr (Initialized provider), w\<lparr>sam2 := Some c\<rparr>))"

definition handleEncode ::
  "ort_env \<Rightarrow> string \<Rightarrow> byte list \<Rightarrow> nat \<Rightarrow> nat \<Rightarrow> worker
     \<Rightarrow> (error + WorkerResponseMessage) \<times> worker" where
  "handleEncode env imageId imageData width height w =
     (case sam2 w of
        None \<Rightarrow> (Inl (Error ''SAM2 not initialized''), w)
      | Some c \<Rightarrow>
          (case encodeImage env imageId imageData width height c of
             (Inl e, c') \<Rightarrow> (Inl e, w\<lparr>sam2 := Some c'\<rparr>)
           | (Inr encodeTime, c') \<Rightarrow> (Inr (Encoded imageId encodeTime), w\<lparr>sam2 := Some c'\<rparr>)))"

definition handleDecode ::
  "ort_env \<Rightarrow> string \<Rightarrow> SAM2Point list \<Rightarrow> nat \<Rightarrow> nat \<Rightarrow> f32 list option \<Rightarrow> worker
     \<Rightarrow> (error + WorkerResponseMessage) \<times> worker" where
  "handleDecode env imageId points width height previousMask w =
     (case sam2 w of
        None \<Rightarrow> (Inl (Error ''SAM2 not initialized''), w)
      | Some c \<Rightarrow>
          (case decode env imageId points width height previousMask c of
             (Inl e, c') \<Rightarrow> (Inl e, w\<lparr>sam2 := Some c'\<rparr>)
           | (Inr result, c') \<Rightarrow> (Inr (Decoded imageId result), w\<lparr>sam2 := Some c'\<rparr>)))"

definition handleSegment ::
  "ort_env \<Rightarrow> string \<Rightarrow> byte list \<Rightarrow> nat \<Rightarrow> nat \<Rightarrow> SAM2Point list \<Rightarrow> f32 list option \<Rightarrow> worker
     \<Rightarrow> (error + WorkerResponseMessage) \<times> worker" where
  "handleSegment env imageId imageData width height points previousMask w =
     (case sam2 w of
        None \<Rightarrow> (Inl (Error ''SAM2 not initialized''), w)
      | Some c \<Rightarrow>
          (case core_segment env imageId imageData width height points previousMask c of
             (Inl e, c') \<Rightarrow> (Inl e, w\<lparr>sam2 := Some c'\<rparr>)
           | (Inr result, c') \<Rightarrow> (Inr (Segmented imageId result), w\<lparr>sam2 := Some c'\<rparr>)))"

text \<open>\<open>if (message.imageId)\<close>: an absent or empty id clears every cache.\<close>

definition handleClearCache ::
  "string option \<Rightarrow> worker \<Rightarrow> (error + WorkerResponseMessage) \<times> worker" where
  "handleClearCache imageId w =
     (case sam2 w of
        None \<Rightarrow> (Inl (Error ''SAM2 not initialized''), w)
      | Some c \<Rightarrow>
          (Inr (CacheCleared imageId),
           w\<lparr>sam2 := Some (case imageId of
                              None \<Rightarrow> clearAllCaches c
                            | Some i \<Rightarrow> if i = [] then clearAllCaches c
                                        else clearImageCache i c)\<rparr>))"

definition handleDispose :: "worker \<Rightarrow> (error + WorkerResponseMessage) \<times> worker" where
  "handleDispose w = (Inr Disposed, w\<lparr>sam2 := None\<rparr>)"

definition handleGetStatus :: "worker \<Rightarrow> (error + WorkerResponseMessage) \<times> worker" where
  "handleGetStatus w =
     (Inr (Status (case sam2 w of None \<Rightarrow> False | Some c \<Rightarrow> isInitialized c)
                  (case sam2 w of None \<Rightarrow> None | Some c \<Rightarrow> Some (coreProvider c))), w)"

text \<open>
  The \<open>switch\<close> of \<open>self.onmessage\<close>. The worker has its own copy of the message and reads
  the contents of the binary fields.
\<close>

fun handle_request ::
  "ort_env \<Rightarrow> WorkerRequestMessage \<Rightarrow> worker \<Rightarrow> (error + WorkerResponseMessage) \<times> worker" where
  "handle_request env (ReqInitialize e d opts) w = handleInitialize env (elems e) (elems d) opts w"
| "handle_request env (ReqEncode iid img wd ht) w = handleEncode env iid (elems img) wd ht w"
| "handle_request env (ReqDecode iid pts wd ht prev) w =
     handleDecode env iid pts wd ht (map_option elems prev) w"
| "handle_request env (ReqSegment iid img wd ht pts prev) w =
     handleSegment env iid (elems img) wd ht pts (map_option elems prev) w"
| "handle_request env (ReqClearCache iid) w = handleClearCache iid w"
| "handle_request env ReqDispose w = handleDispose w"
| "handle_request env ReqGetStatus w = handleGetStatus w"

text \<open>
  \<open>self.onmessage\<close>: the \<open>try\<close>/\<open>catch\<close> around the switch. Every handler posts its one
  response as its last statement, so a handler that throws has posted nothing; the catch
  posts \<open>error\<close> with the thrown message and the type of the request. The result is the
  list of messages posted and the worker's state afterwards.
\<close>

definition onmessage ::
  "ort_env \<Rightarrow> WorkerRequestMessage \<Rightarrow> worker \<Rightarrow> WorkerResponseMessage list \<times> worker" where
  "onmessage env message w =
     (case handle_request env message w of
        (Inl e, w') \<Rightarrow> ([ErrorResponse (error_message e) (request_type message)], w')
      | (Inr response, w') \<Rightarrow> ([response], w'))"

section \<open>capability-check.ts\<close>

record GPUAdapterInfo =
  vendor :: "string option"
  architecture :: "string option"
  description :: "string option"

record WebGPUCapabilities =
  available :: bool
  unavailableReason :: "string option"
  adapterInfo :: "GPUAdapterInfo option"
  estimatedVRAM :: nat
  isDiscreteGPU :: bool
  isLowVRAM :: bool

definition LOW_VRAM_THRESHOLD :: nat where
  "LOW_VRAM_THRESHOLD = 4 * 1024 * 1024 * 1024"

text \<open>
  What the host offers: no \<open>navigator.gpu\<close>; a \<open>requestAdapter\<close> that throws; one that yields
  no adapter; or an adapter, with its \<open>limits.maxBufferSize\<close> and, when the adapter has the
  method, what \<open>requestAdapterInfo\<close> returns or throws.
\<close>

record GPUAdapter =
  maxBufferSize :: nat
  requestAdapterInfo :: "(error + GPUAdapterInfo) option"

datatype gpu_host =
    NoGpuApi
  | RequestAdapterThrows error
  | NoAdapter
  | HasAdapter GPUAdapter

text \<open>\<open>s.includes(k)\<close> and \<open>toLowerCase\<close> (on ASCII letters).\<close>

fun starts_with :: "string \<Rightarrow> string \<Rightarrow> bool" where
  "starts_with s [] = True"
| "starts_with [] (k # ks) = False"
| "starts_with (c # cs) (k # ks) = (c = k \<and> starts_with cs ks)"

fun str_includes :: "string \<Rightarrow> string \<Rightarrow> bool" where
  "str_includes [] k = (k = [])"
| "str_includes (c # cs) k = (starts_with (c # cs) k \<or> str_includes cs k)"

definition lower_char :: "char \<Rightarrow> char" where
  "lower_char c =
     (let n = of_char c :: nat in if 65 \<le> n \<and> n \<le> 90 then char_of (n + 32) else c)"

definition toLowerCase :: "string \<Rightarrow> string" where
  "toLowerCase s = map lower_char s"

definition detectDiscreteGPU :: "GPUAdapterInfo \<Rightarrow> bool" where
  "detectDiscreteGPU info =
     (let vendor' = toLowerCase (case vendor info of None \<Rightarrow> [] | Some s \<Rightarrow> s);
          architecture' = toLowerCase (case architecture info of None \<Rightarrow> [] | Some s \<Rightarrow> s);
          description' = toLowerCase (case description info of None \<Rightarrow> [] | Some s \<Rightarrow> s);
          discreteKeywords = [''nvidia'', ''geforce'', ''rtx'', ''gtx'', ''quadro'',
                              ''amd'', ''radeon'', ''rx '', ''vega''];
          combined = vendor' @ '' '' @ architecture' @ '' '' @ description'
      in if list_ex (\<lambda>keyword. str_includes combined keyword) discreteKeywords then True
         else if str_includes vendor' ''intel'' \<and>
                 (str_includes architecture' ''arc'' \<or> str_includes description' ''arc'') then True
         else False)"

definition unavailable :: "string \<Rightarrow> WebGPUCapabilities" where
  "unavailable reason =
     \<lparr>available = False, unavailableReason = Some reason, adapterInfo = None,
      estimatedVRAM = 0, isDiscreteGPU = False, isLowVRAM = True\<rparr>"

definition checkWebGPUCapabilities :: "gpu_host \<Rightarrow> WebGPUCapabilities" where
  "checkWebGPUCapabilities host =
     (case host of
        NoGpuApi \<Rightarrow> unavailable ''WebGPU API not available in this browser''
      | RequestAdapterThrows e \<Rightarrow>
          unavailable (''WebGPU initialization failed: '' @ error_message e)
      | NoAdapter \<Rightarrow> unavailable ''No WebGPU adapter available''
      | HasAdapter adapter \<Rightarrow>
          (case (case requestAdapterInfo adapter of
                   None \<Rightarrow> Inr None
                 | Some (Inl e) \<Rightarrow> Inl e
                 | Some (Inr info) \<Rightarrow> Inr (Some info)) of
             Inl e \<Rightarrow> unavailable (''WebGPU initialization failed: '' @ error_message e)
           | Inr adapterInfo' \<Rightarrow>
               let estimatedVRAM' = maxBufferSize adapter * 4;
                   isDiscreteGPU' = (case adapterInfo' of
                                       None \<Rightarrow> False | Some info \<Rightarrow> detectDiscreteGPU info);
                   isLowVRAM' = (estimatedVRAM' < LOW_VRAM_THRESHOLD \<and> 0 < estimatedVRAM')
               in \<lparr>available = True, unavailableReason = None, adapterInfo = adapterInfo',
                   estimatedVRAM = estimatedVRAM', isDiscreteGPU = isDiscreteGPU',
                   isLowVRAM = isLowVRAM'\<rparr>))"

section \<open>model-loader.ts\<close>

record ModelConfig =
  m_name :: string
  m_url :: string
  expectedSize :: nat

datatype model_key = EncoderKey | DecoderKey

definition SAM2_MODELS :: "model_key \<Rightarrow> ModelConfig" where
  "SAM2_MODELS k =
     (case k of
        EncoderKey \<Rightarrow>
          \<lparr>m_name = ''SAM2 Encoder'',
           m_url = ''https://huggingface.co/g-ronimo/sam2-tiny/resolve/main/sam2_hiera_tiny_encoder.with_runtime_opt.ort'',
           expectedSize = 42 * 1024 * 1024\<rparr>
      | DecoderKey \<Rightarrow>
          \<lparr>m_name = ''SAM2 Decoder'',
           m_url = ''https://huggingface.co/g-ronimo/sam2-tiny/resolve/main/sam2_hiera_tiny_decoder_pr1.onnx'',
           expectedSize = 15 * 1024 * 1024\<rparr>)"

text \<open>
  The IndexedDB store \<open>models\<close>: the database opens or it does not, and holds the bytes
  stored under each key. (A request that fails after the database has opened is not
  modelled.)
\<close>

record idb =
  db_opens :: bool
  store :: "model_key \<rightharpoonup> byte list"

definition getCachedModel :: "model_key \<Rightarrow> idb \<Rightarrow> byte list option" where
  "getCachedModel modelKey db = (if db_opens db then store db modelKey else None)"

definition cacheModel :: "model_key \<Rightarrow> byte list \<Rightarrow> idb \<Rightarrow> idb" where
  "cacheModel modelKey bytes db =
     (if db_opens db then db\<lparr>store := (store db)(modelKey \<mapsto> bytes)\<rparr> else db)"

text \<open>
  What \<open>fetch\<close> gives for a URL: it throws (network failure, or \<open>AbortError\<close> when the signal
  fires), or a response with \<open>ok\<close>, status, status text, the parsed \<open>content-length\<close> header
  if present, and a body: none (then \<open>arrayBuffer()\<close> returns or throws), or a stream of
  chunks that ends, or fails with an error after the chunks.
\<close>

datatype body =
    NoBody "error + byte list"
  | Stream "byte list list" "error option"

datatype fetch_result =
    FetchThrows error
  | Response bool nat string "nat option" body

type_synonym progress = "nat \<times> nat \<times> string"

text \<open>
  The \<open>while (true)\<close> loop of \<open>downloadModel\<close> over the chunks the reader yields:
  \<open>loaded += value.length; onProgress(loaded, total, config.name)\<close>. Returns the calls of
  \<open>onProgress\<close> in order.
\<close>

fun read_loop :: "byte list list \<Rightarrow> nat \<Rightarrow> nat \<Rightarrow> string \<Rightarrow> progress list" where
  "read_loop [] loaded total' nm = []"
| "read_loop (v # vs) loaded total' nm =
     (loaded + length v, total', nm) # read_loop vs (loaded + length v) total' nm"

definition downloadModel ::
  "(string \<Rightarrow> fetch_result) \<Rightarrow> ModelConfig \<Rightarrow> progress list \<times> (error + byte list)" where
  "downloadModel fetch config =
     (case fetch (m_url config) of
        FetchThrows e \<Rightarrow> ([], Inl e)
      | Response ok status statusText contentLength bdy \<Rightarrow>
          if \<not> ok then
            ([], Inl (Error (''Failed to download '' @ m_name config @ '': '' @
                               string_of_nat status @ '' '' @ statusText)))
          else
            let total' = (case contentLength of None \<Rightarrow> expectedSize config | Some n \<Rightarrow> n)
            in case bdy of
                 NoBody (Inl e) \<Rightarrow> ([], Inl e)
               | NoBody (Inr buffer) \<Rightarrow>
                   ([(length buffer, length buffer, m_name config)], Inr buffer)
               | Stream chunks failure \<Rightarrow>
                   (read_loop chunks 0 total' (m_name config),
                    case failure of None \<Rightarrow> Inr (concat chunks) | Some e \<Rightarrow> Inl e))"

definition loadModel ::
  "(string \<Rightarrow> fetch_result) \<Rightarrow> model_key \<Rightarrow> idb \<Rightarrow> progress list \<times> (error + byte list) \<times> idb" where
  "loadModel fetch modelKey db =
     (case getCachedModel modelKey db of
        Some cached \<Rightarrow>
          ([(length cached, length cached, m_name (SAM2_MODELS modelKey))], Inr cached, db)
      | None \<Rightarrow>
          (case downloadModel fetch (SAM2_MODELS modelKey) of
             (calls, Inl e) \<Rightarrow> (calls, Inl e, db)
           | (calls, Inr bytes) \<Rightarrow> (calls, Inr bytes, cacheModel modelKey bytes db)))"

text \<open>The closure variables of \<open>loadAllModels\<close> and its callback \<open>trackProgress\<close>.\<close>

record track =
  totalLoaded :: nat
  currentModel :: string

definition totalSize :: nat where
  "totalSize = expectedSize (SAM2_MODELS EncoderKey) + expectedSize (SAM2_MODELS DecoderKey)"

definition trackProgress :: "progress \<Rightarrow> track \<Rightarrow> progress \<times> track" where
  "trackProgress call t =
     (case call of (loaded, total', modelName) \<Rightarrow>
        let t1 = (if modelName \<noteq> currentModel t
                  then (if currentModel t = m_name (SAM2_MODELS EncoderKey)
                        then t\<lparr>totalLoaded := expectedSize (SAM2_MODELS EncoderKey)\<rparr>
                        else t)\<lparr>currentModel := modelName\<rparr>
                  else t);
            overallLoaded = (if currentModel t1 = m_name (SAM2_MODELS EncoderKey) then loaded
                             else expectedSize (SAM2_MODELS EncoderKey) + loaded)
        in ((overallLoaded, totalSize, modelName), t1))"

text \<open>\<open>trackProgress\<close> on each call of one model's load, in order.\<close>

fun track_calls :: "progress list \<Rightarrow> track \<Rightarrow> progress list \<times> track" where
  "track_calls [] t = ([], t)"
| "track_calls (c # cs) t =
     (case trackProgress c t of
        (out, t1) \<Rightarrow> (case track_calls cs t1 of (outs, t2) \<Rightarrow> (out # outs, t2)))"

text \<open>
  \<open>loadAllModels\<close>: the calls of the caller's \<open>onProgress\<close> in order, the two buffers or
  the error thrown, and the store afterwards.
\<close>

definition loadAllModels ::
  "(string \<Rightarrow> fetch_result) \<Rightarrow> idb \<Rightarrow> progress list \<times> (error + byte list \<times> byte list) \<times> idb" where
  "loadAllModels fetch db =
     (let t = \<lparr>totalLoaded = 0, currentModel = []\<rparr>;
          t0 = t\<lparr>currentModel := m_name (SAM2_MODELS EncoderKey)\<rparr>
      in case loadModel fetch EncoderKey db of (calls1, r1, db1) \<Rightarrow>
           case track_calls calls1 t0 of (out1, t1) \<Rightarrow>
             (case r1 of
                Inl e \<Rightarrow> (out1, Inl e, db1)
              | Inr encoder \<Rightarrow>
                  let t2 = t1\<lparr>currentModel := m_name (SAM2_MODELS DecoderKey)\<rparr>
                  in case loadModel fetch DecoderKey db1 of (calls2, r2, db2) \<Rightarrow>
                       case track_calls calls2 t2 of (out2, t3) \<Rightarrow>
                         (case r2 of
                            Inl e \<Rightarrow> (out1 @ out2, Inl e, db2)
                          | Inr decoder \<Rightarrow> (out1 @ out2, Inr (encoder, decoder), db2))))"

text \<open>
  What \<open>trackProgress\<close> makes of a call that comes from the load of model \<open>k\<close> while
  \<open>currentModel\<close> is the name of that model (used to state what \<open>loadAllModels\<close> reports).
\<close>

definition overall :: "model_key \<Rightarrow> progress \<Rightarrow> progress" where
  "overall k c =
     (case k of
        EncoderKey \<Rightarrow> (fst c, totalSize, snd (snd c))
      | DecoderKey \<Rightarrow> (expectedSize (SAM2_MODELS EncoderKey) + fst c, totalSize, snd (snd c)))"

section \<open>webgpu-provider.ts\<close>

datatype ProviderState = Idle | LoadingModels | Initializing | Ready | Processing | ErrorState

fun state_name :: "ProviderState \<Rightarrow> string" where
  "state_name Idle = ''idle''"
| "state_name LoadingModels = ''loading-models''"
| "state_name Initializing = ''initializing''"
| "state_name Ready = ''ready''"
| "state_name Processing = ''processing''"
| "state_name ErrorState = ''error''"

text \<open>
  An asynchronous call, run to its end: it resolved, it rejected, or its promise is still
  pending when nothing more can happen.
\<close>

datatype 'a promise = Resolved 'a | Rejected error | Pending

text \<open>
  The fields of class \<open>WebGPUProvider\<close>. The worker the provider owns is held with its
  state; \<open>pendingRequests\<close> is the key order of the \<open>Map\<close> (each key stands for the promise
  of one call); \<open>abortController\<close> is set or null. The two logs are the calls made to the
  \<open>onStatusChange\<close> and \<open>onProgress\<close> callbacks of the options. The last field is not in
  the class: it is the set of the page's buffers that are detached, to which the provider
  adds every buffer it transfers to its worker. A provider is made in a page where none is.
\<close>

record WebGPUProvider =
  pworker :: "worker option"
  state :: ProviderState
  capabilities :: "WebGPUCapabilities option"
  currentProvider :: "ExecutionProvider option"
  pendingRequests :: "string list"
  requestCounter :: nat
  abortController :: bool
  imageIdCounter :: nat
  previousMaskLogits :: "string \<rightharpoonup> f32 list"
  currentImageId :: "string option"
  opt_preferredProvider :: "ExecutionProvider option"
  opt_verbose :: "bool option"
  statusLog :: "ProviderState list"
  progressLog :: "progress list"
  detached :: "nat set"

definition new_WebGPUProvider :: "ExecutionProvider option \<Rightarrow> bool option \<Rightarrow> WebGPUProvider" where
  "new_WebGPUProvider preferred verb =
     \<lparr>pworker = None, state = Idle, capabilities = None, currentProvider = None,
      pendingRequests = [], requestCounter = 0, abortController = False,
      imageIdCounter = 0, previousMaskLogits = Map.empty, currentImageId = None,
      opt_preferredProvider = preferred, opt_verbose = verb,
      statusLog = [], progressLog = [], detached = {}\<rparr>"

text \<open>
  What surrounds the provider: the runtime, the network, the GPU, whether \<open>new Worker\<close>
  throws, and the message the browser gives a \<open>DataCloneError\<close>.
\<close>

record host_env =
  ort :: ort_env
  fetch :: "string \<Rightarrow> fetch_result"
  gpu :: gpu_host
  spawnWorker :: "error option"
  cloneError :: string

definition setState :: "ProviderState \<Rightarrow> WebGPUProvider \<Rightarrow> WebGPUProvider" where
  "setState s p = p\<lparr>state := s, statusLog := statusLog p @ [s]\<rparr>"

definition isAvailable :: "host_env \<Rightarrow> WebGPUProvider \<Rightarrow> bool \<times> WebGPUProvider" where
  "isAvailable env p =
     (let p1 = (if capabilities p = None
                then p\<lparr>capabilities := Some (checkWebGPUCapabilities (gpu env))\<rparr>
                else p)
      in (True, p1))"


text \<open>How \<open>handleWorkerMessage\<close> settles the promise of a pending call.\<close>

datatype settle =
    Resolve string WorkerResponseMessage
  | Reject string error

fun settle_id :: "settle \<Rightarrow> string" where
  "settle_id (Resolve i m) = i"
| "settle_id (Reject i e) = i"

definition handleWorkerMessage ::
  "WorkerResponseMessage \<Rightarrow> WebGPUProvider \<Rightarrow> settle option \<times> WebGPUProvider" where
  "handleWorkerMessage message p =
     (case message of
        DebugMsg d \<Rightarrow> (None, p)
      | ErrorResponse msg requestType \<Rightarrow>
          (case pendingRequests p of
             [] \<Rightarrow> (None, p)
           | requestId # rest \<Rightarrow>
               (Some (Reject requestId (SegmentationError msg SERVER_ERROR (Some requestType))),
                p\<lparr>pendingRequests := rest\<rparr>))
      | _ \<Rightarrow>
          (case pendingRequests p of
             [] \<Rightarrow> (None, p)
           | requestId # rest \<Rightarrow>
               (Some (Resolve requestId message), p\<lparr>pendingRequests := rest\<rparr>)))"

text \<open>The worker's posted messages reach \<open>handleWorkerMessage\<close> in order.\<close>

fun deliver :: "WorkerResponseMessage list \<Rightarrow> WebGPUProvider \<Rightarrow> settle list \<times> WebGPUProvider" where
  "deliver [] p = ([], p)"
| "deliver (m # ms) p =
     (case handleWorkerMessage m p of
        (s, p1) \<Rightarrow>
          (case deliver ms p1 of
             (ss, p2) \<Rightarrow> ((case s of None \<Rightarrow> [] | Some v \<Rightarrow> [v]) @ ss, p2)))"

text \<open>
  The transfer list \<open>sendWorkerMessage\<close> collects: the buffer of every binary field the
  message has, in the order of the four \<open>if\<close> statements.
\<close>

definition transferList :: "WorkerRequestMessage \<Rightarrow> buffer list" where
  "transferList message =
     (case message of
        ReqInitialize encoderData decoderData opts \<Rightarrow> [buf encoderData, buf decoderData]
      | ReqEncode imageId imageData width height \<Rightarrow> [buf imageData]
      | ReqDecode imageId points width height previousMask \<Rightarrow>
          (case previousMask of None \<Rightarrow> [] | Some m \<Rightarrow> [buf m])
      | ReqSegment imageId imageData width height points previousMask \<Rightarrow>
          buf imageData # (case previousMask of None \<Rightarrow> [] | Some m \<Rightarrow> [buf m])
      | _ \<Rightarrow> [])"

text \<open>
  \<open>worker.postMessage(message, transferList)\<close> throws a \<open>DataCloneError\<close>, and sends nothing,
  when a buffer of the list is detached or is listed twice; otherwise every buffer of the
  list is detached in the page. A fresh buffer is neither detached nor listed twice.
\<close>

fun page_buffers :: "buffer list \<Rightarrow> nat list" where
  "page_buffers [] = []"
| "page_buffers (Fresh # bs) = page_buffers bs"
| "page_buffers (Page b # bs) = b # page_buffers bs"

definition postMessage_throws :: "nat set \<Rightarrow> buffer list \<Rightarrow> bool" where
  "postMessage_throws gone transfer =
     (if distinct (page_buffers transfer)
      then list_ex (\<lambda>b. b \<in> gone) (page_buffers transfer)
      else True)"

text \<open>
  \<open>sendWorkerMessage\<close> and the wait for its promise. The request is registered first. When
  \<open>postMessage\<close> throws, inside the executor of the promise, the promise is rejected with
  what was thrown and the request stays registered. Otherwise the worker handles the
  message and the messages it posts are delivered; the call ends as the settlement
  addressed to its own request id says, and stays pending if there is none.
\<close>

definition sendWorkerMessage ::
  "host_env \<Rightarrow> WorkerRequestMessage \<Rightarrow> WebGPUProvider
     \<Rightarrow> WorkerResponseMessage promise \<times> WebGPUProvider" where
  "sendWorkerMessage env message p =
     (case pworker p of
        None \<Rightarrow> (Rejected (Error ''Worker not created''), p)
      | Some w \<Rightarrow>
          let requestId = ''req_'' @ string_of_nat (Suc (requestCounter p));
              p1 = p\<lparr>requestCounter := Suc (requestCounter p),
                     pendingRequests := pendingRequests p @ [requestId]\<rparr>
          in if postMessage_throws (detached p1) (transferList message)
             then (Rejected (DataCloneError (cloneError env)), p1)
             else
               case onmessage (ort env) message w of (posted, w') \<Rightarrow>
                 case deliver posted
                        (p1\<lparr>pworker := Some w',
                            detached := detached p1 \<union> set (page_buffers (transferList message))\<rparr>)
                 of (settled, p2) \<Rightarrow>
                   ((case find (\<lambda>s. settle_id s = requestId) settled of
                       None \<Rightarrow> Pending
                     | Some (Resolve i m) \<Rightarrow> Resolved m
                     | Some (Reject i e) \<Rightarrow> Rejected e),
                    p2))"

text \<open>
  \<open>initialize\<close>, in the order of the source. \<open>initialize_begin\<close> is the start of the \<open>try\<close>
  block, up to the first \<open>await\<close>: the state a caller finds while the load is in flight.
  \<open>initialize_failed\<close> is the \<open>catch\<close> and \<open>finally\<close>.
\<close>

definition initialize_begin :: "WebGPUProvider \<Rightarrow> WebGPUProvider" where
  "initialize_begin p = (setState LoadingModels p)\<lparr>abortController := True\<rparr>"

definition initialize_failed ::
  "error \<Rightarrow> WebGPUProvider \<Rightarrow> ExecutionProvider option promise \<times> WebGPUProvider" where
  "initialize_failed e p =
     (case e of
        AbortError m \<Rightarrow>
          (Rejected (SegmentationError ''Initialization aborted'' ABORTED None),
           (setState ErrorState p)\<lparr>abortController := False\<rparr>)
      | _ \<Rightarrow> (Rejected e, (setState ErrorState p)\<lparr>abortController := False\<rparr>))"

definition initialize ::
  "host_env \<Rightarrow> WebGPUProvider \<Rightarrow> idb \<Rightarrow> ExecutionProvider option promise \<times> WebGPUProvider \<times> idb" where
  "initialize env p db =
     (if state p = Ready then (Resolved (currentProvider p), p, db)
      else if state p = LoadingModels \<or> state p = Initializing
      then (Rejected (Error ''Initialization already in progress''), p, db)
      else
        let p1 = initialize_begin p
        in case loadAllModels (fetch env) db of (calls, loaded, db1) \<Rightarrow>
             let p2 = p1\<lparr>progressLog := progressLog p1 @ calls\<rparr>
             in case loaded of
                  Inl e \<Rightarrow> (case initialize_failed e p2 of (r, p3) \<Rightarrow> (r, p3, db1))
                | Inr (encoder, decoder) \<Rightarrow>
                    let p3 = setState Initializing p2
                    in case spawnWorker env of
                         Some e \<Rightarrow> (case initialize_failed e p3 of (r, p4) \<Rightarrow> (r, p4, db1))
                       | None \<Rightarrow>
                           let p4 = p3\<lparr>pworker := Some new_worker\<rparr>
                           in case sendWorkerMessage env
                                     (ReqInitialize \<lparr>buf = Fresh, elems = encoder\<rparr>
                                        \<lparr>buf = Fresh, elems = decoder\<rparr>
                                        (Some \<lparr>preferredProvider =
                                                  Some (case opt_preferredProvider p4 of
                                                          None \<Rightarrow> Webgpu | Some v \<Rightarrow> v),
                                                verbose = opt_verbose p4\<rparr>)) p4 of
                                (Pending, p5) \<Rightarrow> (Pending, p5, db1)
                              | (Rejected e, p5) \<Rightarrow>
                                  (case initialize_failed e p5 of (r, p6) \<Rightarrow> (r, p6, db1))
                              | (Resolved result, p5) \<Rightarrow>
                                  let provider = (case result of
                                                    Initialized v \<Rightarrow> Some v | _ \<Rightarrow> None);
                                      p6 = setState Ready (p5\<lparr>currentProvider := provider\<rparr>)
                                  in (Resolved provider, p6\<lparr>abortController := False\<rparr>, db1))"

text \<open>
  \<open>preEncodeImage\<close>: \<open>encode_ready\<close> is the part after the provider is ready. The value is
  the \<open>encodeTime\<close> field of the message that resolves the call, \<open>undefined\<close> (here \<open>None\<close>)
  when the message has none. A rejected call leaves the state as it is.
\<close>

definition encode_ready ::
  "host_env \<Rightarrow> byte typed_array \<Rightarrow> nat \<Rightarrow> nat \<Rightarrow> WebGPUProvider
     \<Rightarrow> rat option promise \<times> WebGPUProvider" where
  "encode_ready env imageData width height p =
     (let p1 = (if currentImageId p = None
                then p\<lparr>imageIdCounter := Suc (imageIdCounter p),
                       currentImageId := Some (''img_'' @ string_of_nat (Suc (imageIdCounter p)))\<rparr>
                else p);
          imageId = the (currentImageId p1)
      in case sendWorkerMessage env (ReqEncode imageId imageData width height) p1 of
           (Pending, p2) \<Rightarrow> (Pending, p2)
         | (Rejected e, p2) \<Rightarrow> (Rejected e, p2)
         | (Resolved (Encoded iid encodeTime), p2) \<Rightarrow> (Resolved (Some encodeTime), p2)
         | (Resolved other, p2) \<Rightarrow> (Resolved None, p2))"

definition preEncodeImage ::
  "host_env \<Rightarrow> byte typed_array \<Rightarrow> nat \<Rightarrow> nat \<Rightarrow> WebGPUProvider \<Rightarrow> idb
     \<Rightarrow> rat option promise \<times> WebGPUProvider \<times> idb" where
  "preEncodeImage env imageData width height p db =
     (if state p \<noteq> Ready then
        (if state p = Idle then
           (case initialize env p db of
              (Pending, p1, db1) \<Rightarrow> (Pending, p1, db1)
            | (Rejected e, p1, db1) \<Rightarrow> (Rejected e, p1, db1)
            | (Resolved v, p1, db1) \<Rightarrow>
                (case encode_ready env imageData width height p1 of (r, p2) \<Rightarrow> (r, p2, db1)))
         else (Rejected (Error (''Provider not ready for encoding (state: ''
                                  @ state_name (state p) @ '')'')), p, db))
      else (case encode_ready env imageData width height p of (r, p1) \<Rightarrow> (r, p1, db)))"

text \<open>Requests and responses of the provider interface (types.ts).\<close>

record SegmentationRequest =
  req_image :: "byte typed_array"
  req_width :: nat
  req_height :: nat
  req_points :: "SAM2Point list"

record SegmentationResponse =
  resp_width :: nat
  resp_height :: nat
  resp_mask :: "byte list"
  resp_logits :: "f32 list option"
  resp_allMasks :: "SAM2MaskCandidate list option"
  resp_selectedMaskIndex :: "nat option"

text \<open>
  The part of \<open>segmentSingleView\<close> after the provider is ready, in the order of the source:
  \<open>segment_begin\<close> sets the state and makes sure a session id exists; the request is sent
  and awaited; \<open>segment_store\<close> keeps the logits for the next refinement;
  \<open>segment_response\<close> builds the value returned. The source reads the message that
  resolves the call as a \<open>segmented\<close> message without looking at its type; the last case
  below stands for any other message, and never happens (\<open>segment_request_answer\<close>).
\<close>

definition segment_begin :: "WebGPUProvider \<Rightarrow> WebGPUProvider" where
  "segment_begin p =
     (let p1 = setState Processing p
      in if currentImageId p1 = None
         then p1\<lparr>imageIdCounter := Suc (imageIdCounter p1),
                 currentImageId := Some (''img_'' @ string_of_nat (Suc (imageIdCounter p1)))\<rparr>
         else p1)"

definition segment_store :: "string \<Rightarrow> SAM2Result \<Rightarrow> WebGPUProvider \<Rightarrow> WebGPUProvider" where
  "segment_store imageId result p =
     (case rlogits result of
        None \<Rightarrow> p
      | Some lg \<Rightarrow>
          let maskSize = 256 * 256;
              bestMaskLogits =
                (if length lg = maskSize then lg
                 else if maskSize \<le> length lg then take maskSize lg
                 else replicate maskSize (Fin 0))
          in p\<lparr>previousMaskLogits := (previousMaskLogits p)(imageId \<mapsto> bestMaskLogits)\<rparr>)"

definition segment_response :: "SAM2Result \<Rightarrow> SegmentationResponse" where
  "segment_response result =
     \<lparr>resp_width = rwidth result,
      resp_height = rheight result,
      resp_mask = rmask result,
      resp_logits = rlogits result,
      resp_allMasks = (case allMasks result of
                         None \<Rightarrow> None
                       | Some ms \<Rightarrow> if 0 < length ms then Some ms else None),
      resp_selectedMaskIndex = selectedMaskIndex result\<rparr>"

definition segment_ready ::
  "host_env \<Rightarrow> SegmentationRequest \<Rightarrow> WebGPUProvider
     \<Rightarrow> SegmentationResponse promise \<times> WebGPUProvider" where
  "segment_ready env request p =
     (let p2 = segment_begin p;
          imageId = the (currentImageId p2);
          sam2Points = map (\<lambda>pt. \<lparr>px = px pt, py = py pt, ptype = ptype pt\<rparr>) (req_points request);
          previousMask = previousMaskLogits p2 imageId
      in case sendWorkerMessage env
                (ReqSegment imageId (req_image request) (req_width request) (req_height request)
                   sam2Points
                   (map_option (\<lambda>m. \<lparr>buf = Fresh, elems = m\<rparr>) previousMask)) p2 of
           (Pending, p3) \<Rightarrow> (Pending, p3)
         | (Rejected e, p3) \<Rightarrow> (Rejected e, setState Ready p3)
         | (Resolved (Segmented iid result), p3) \<Rightarrow>
             (Resolved (segment_response result),
              setState Ready (segment_store imageId result p3))
         | (Resolved other, p3) \<Rightarrow>
             (Rejected (Error ''response is not a segmented message''), setState Ready p3))"

definition segmentSingleView ::
  "host_env \<Rightarrow> SegmentationRequest \<Rightarrow> WebGPUProvider \<Rightarrow> idb
     \<Rightarrow> SegmentationResponse promise \<times> WebGPUProvider \<times> idb" where
  "segmentSingleView env request p db =
     (if state p \<noteq> Ready then
        (if state p = Idle then
           (case initialize env p db of
              (Pending, p1, db1) \<Rightarrow> (Pending, p1, db1)
            | (Rejected e, p1, db1) \<Rightarrow> (Rejected e, p1, db1)
            | (Resolved v, p1, db1) \<Rightarrow>
                (case segment_ready env request p1 of (r, p2) \<Rightarrow> (r, p2, db1)))
         else (Rejected (Error (''Provider not ready (state: '' @ state_name (state p) @ '')'')), p, db))
      else (case segment_ready env request p of (r, p1) \<Rightarrow> (r, p1, db)))"

section \<open>mask-selection.ts and segmentation-service.ts\<close>

datatype SelectionOp = Add | Remove | SetSel

text \<open>
  The canvas handed to \<open>select.byMask\<close>: its size and its pixels. The pixels come from the
  browser's canvas (and from \<open>Math.exp\<close> on the logits), so they are a parameter: a function
  of the response, the threshold and the target size.
\<close>

record canvas =
  cv_width :: nat
  cv_height :: nat
  cv_pixels :: "byte list"

record dom_env =
  context2d :: bool
  paint :: "SegmentationResponse \<Rightarrow> rat \<Rightarrow> nat option \<Rightarrow> nat option \<Rightarrow> byte list"

text \<open>Events fired on the bus, in order; a subscriber is assumed not to throw.\<close>

datatype event =
    SelectByMask SelectionOp canvas
  | MaskApplied nat nat
  | MaskCancelled

text \<open>
  \<open>applyMaskToSelection\<close>: throws when no 2D context can be had, and \<open>createImageData\<close>
  throws for a zero width or height; otherwise fires \<open>select.byMask\<close> once.
\<close>

definition applyMaskToSelection ::
  "dom_env \<Rightarrow> SegmentationResponse \<Rightarrow> SelectionOp \<Rightarrow> rat \<Rightarrow> nat option \<Rightarrow> nat option
     \<Rightarrow> event list \<Rightarrow> error + event list" where
  "applyMaskToSelection doc response op threshold targetWidth targetHeight fired =
     (if \<not> context2d doc then Inl (Error ''Failed to create canvas 2D context'')
      else if resp_width response = 0 \<or> resp_height response = 0 then Inl (Error ''IndexSizeError'')
      else Inr (fired @
                [SelectByMask op
                   \<lparr>cv_width = (case targetWidth of None \<Rightarrow> resp_width response | Some v \<Rightarrow> v),
                    cv_height = (case targetHeight of None \<Rightarrow> resp_height response | Some v \<Rightarrow> v),
                    cv_pixels = paint doc response threshold targetWidth targetHeight\<rparr>]))"

record PendingMask =
  pm_response :: SegmentationResponse
  canvasWidth :: nat
  canvasHeight :: nat

text \<open>The fields of \<open>SegmentationService\<close> used when a mask is applied or cancelled, and the events it fired.\<close>

record SegmentationService =
  pendingMask :: "PendingMask option"
  fired :: "event list"

definition determineSelectionOp :: SelectionOp where
  "determineSelectionOp = Add"

text \<open>\<open>applyPendingMask\<close>: the error is the exception that leaves the handler, if any.\<close>

definition applyPendingMask :: "dom_env \<Rightarrow> SegmentationService \<Rightarrow> error option \<times> SegmentationService" where
  "applyPendingMask doc svc =
     (case pendingMask svc of
        None \<Rightarrow> (None, svc)
      | Some pm \<Rightarrow>
          (case applyMaskToSelection doc (pm_response pm) determineSelectionOp (1 / 2)
                  (Some (canvasWidth pm)) (Some (canvasHeight pm)) (fired svc) of
             Inl e \<Rightarrow> (Some e, svc)
           | Inr fired1 \<Rightarrow>
               (None,
                svc\<lparr>pendingMask := None,
                    fired := fired1 @ [MaskApplied (resp_width (pm_response pm))
                                                   (resp_height (pm_response pm))]\<rparr>)))"

definition cancelPendingMask :: "SegmentationService \<Rightarrow> SegmentationService" where
  "cancelPendingMask svc =
     (case pendingMask svc of
        None \<Rightarrow> svc
      | Some pm \<Rightarrow> svc\<lparr>pendingMask := None, fired := fired svc @ [MaskCancelled]\<rparr>)"

section \<open>Invariant of the selection loop\<close>

text \<open>
  What holds of \<open>maxIoU\<close> and \<open>bestMaskIndex\<close> after the loop of \<open>decode\<close> has read the
  scores \<open>pre\<close>: nothing has been read, or \<open>bestMaskIndex\<close> is the first position of a
  largest score read so far and \<open>maxIoU\<close> is that score.
\<close>

definition best_inv :: "f32 list \<Rightarrow> f32 \<Rightarrow> nat \<Rightarrow> bool" where
  "best_inv pre m b \<longleftrightarrow>
     (pre = [] \<and> m = NegInf \<and> b = 0) \<or>
     (b < length pre \<and> m = pre ! b \<and> (\<forall>j<length pre. \<not> f32_gt (pre ! j) m) \<and>
      (\<forall>j<b. f32_gt m (pre ! j)))"

section \<open>Concrete hosts for the worked examples\<close>

text \<open>
  A decoder that returns three planes of 256 by 256 logits with IoU predictions
  0.7, 0.9 and 0.8; an encoder that returns its input as the embedding; a canvas that
  paints every destination pixel white.
\<close>

definition ex_masks :: tensor4 where
  "ex_masks = \<lparr>data4 = replicate (3 * 65536) (Fin 1), dims4 = (1, 3, 256, 256)\<rparr>"

definition ex_decoder_out :: decoder_out where
  "ex_decoder_out =
     \<lparr>masks = Some ex_masks, low_res_masks = None,
      iou_predictions = Some [Fin (7 / 10), Fin (9 / 10), Fin (8 / 10)], iou_pred = None\<rparr>"

definition ex_ort :: ort_env where
  "ex_ort =
     \<lparr>createSession = (\<lambda>p d. Inr ()),
      encoderRun = (\<lambda>t. Inr \<lparr>e_image_embed = Some t, e_high_res_feats_0 = None,
                              e_high_res_feats_1 = None\<rparr>),
      decoderRun = (\<lambda>f. Inr ex_decoder_out),
      preprocessImage = (\<lambda>img w h. Inr \<lparr>tdata = [], tdims = [1, 3, 1024, 1024]\<rparr>),
      drawImage = (\<lambda>src sw sh tw th. replicate (tw * th * 4) 255),
      encodeElapsed = 120,
      decodeElapsed = 30\<rparr>"

text \<open>
  A decoder that returns three planes of 1 by 2 logits with the same IoU predictions, a
  canvas that copies its source (source and destination have the same size), and an engine
  that holds the embedding of image \<open>img_1\<close>.
\<close>

definition ex_tiny_out :: decoder_out where
  "ex_tiny_out =
     \<lparr>masks = Some \<lparr>data4 = [Fin 1, Fin (- 1), Fin 2, Fin 3, Fin (- 1), Fin (- 2)],
                     dims4 = (1, 3, 1, 2)\<rparr>,
      low_res_masks = None,
      iou_predictions = Some [Fin (7 / 10), Fin (9 / 10), Fin (8 / 10)], iou_pred = None\<rparr>"

definition ex_tiny :: ort_env where
  "ex_tiny = ex_ort\<lparr>decoderRun := (\<lambda>f. Inr ex_tiny_out), drawImage := (\<lambda>src sw sh tw th. src)\<rparr>"

definition ex_core :: SAM2Core where
  "ex_core = new_SAM2Core\<lparr>ort_loaded := True, encoderSession := True, decoderSession := True,
       imageEmbeddings := Map.empty(''img_1'' \<mapsto> \<lparr>tdata = [], tdims = [1]\<rparr>)\<rparr>"

text \<open>A host without network and without GPU, and one that serves both models in chunks.\<close>

definition ex_offline :: host_env where
  "ex_offline =
     \<lparr>ort = ex_ort, fetch = (\<lambda>u. FetchThrows (Error ''offline'')), gpu = NoGpuApi,
      spawnWorker = None, cloneError = ''ArrayBuffer at index 0 is already detached.''\<rparr>"

definition ex_online :: host_env where
  "ex_online =
     \<lparr>ort = ex_ort,
      fetch = (\<lambda>u. if u = m_url (SAM2_MODELS EncoderKey)
                    then Response True 200 ''OK'' None (Stream [[1, 2], [3]] None)
                    else Response True 200 ''OK'' None (Stream [[4]] None)),
      gpu = HasAdapter \<lparr>maxBufferSize = 268435456, requestAdapterInfo = None\<rparr>,
      spawnWorker = None, cloneError = ''ArrayBuffer at index 0 is already detached.''\<rparr>"

text \<open>An empty model store, and one that holds both models.\<close>

definition ex_db_empty :: idb where
  "ex_db_empty = \<lparr>db_opens = True, store = Map.empty\<rparr>"

definition ex_db_cached :: idb where
  "ex_db_cached =
     \<lparr>db_opens = True, store = Map.empty(EncoderKey \<mapsto> [1, 2, 3], DecoderKey \<mapsto> [4])\<rparr>"

definition ex_provider :: WebGPUProvider where
  "ex_provider = new_WebGPUProvider None None"

text \<open>
  A host with that engine's runtime, a provider that is ready, owns a worker holding that
  engine and is in session \<open>img_1\<close>, a request for an image of 2 by 1 pixels, and an engine
  that has its sessions but has encoded nothing.
\<close>

definition ex_tiny_host :: host_env where
  "ex_tiny_host = ex_offline\<lparr>ort := ex_tiny\<rparr>"

definition ex_ready :: WebGPUProvider where
  "ex_ready = ex_provider\<lparr>pworker := Some \<lparr>sam2 = Some ex_core\<rparr>, state := Ready,
       currentProvider := Some Webgpu, imageIdCounter := 1, currentImageId := Some ''img_1''\<rparr>"

definition ex_request :: SegmentationRequest where
  "ex_request =
     \<lparr>req_image = \<lparr>buf = Page 1, elems = [0, 0, 0, 255, 255, 255, 255, 255]\<rparr>,
      req_width = 2, req_height = 1,
      req_points = [\<lparr>px = Fin 1, py = Fin 0, ptype = Fg\<rparr>]\<rparr>"

definition ex_core_fresh :: SAM2Core where
  "ex_core_fresh = new_SAM2Core\<lparr>ort_loaded := True, encoderSession := True, decoderSession := True\<rparr>"


text \<open>
  A decoder that throws unless \<open>mask_input\<close> has 256 * 256 values, a worker that holds the
  engine above, a \<open>decode\<close> request with a previous mask of the wrong size, and the same
  request without a previous mask.
\<close>

definition ex_strict :: ort_env where
  "ex_strict = ex_tiny\<lparr>decoderRun :=
       (\<lambda>f. if length (mask_input f) = 65536 then Inr ex_tiny_out
             else Inl (Error ''Invalid shape for mask_input''))\<rparr>"

definition ex_worker :: worker where
  "ex_worker = \<lparr>sam2 = Some ex_core\<rparr>"

definition ex_bad_decode :: WorkerRequestMessage where
  "ex_bad_decode = ReqDecode ''img_1'' [\<lparr>px = Fin 1, py = Fin 0, ptype = Fg\<rparr>] 2 1
       (Some \<lparr>buf = Fresh, elems = [Fin 0]\<rparr>)"

definition ex_good_decode :: WorkerRequestMessage where
  "ex_good_decode = ReqDecode ''img_1'' [\<lparr>px = Fin 1, py = Fin 0, ptype = Fg\<rparr>] 2 1 None"

text \<open>
  A decoder that throws when it is given no point, on a host that has both models stored;
  an image in buffer 1 of the page; a new provider after it has pre-encoded this image,
  and after it has pre-encoded it a second time; a segmentation request without points,
  with its image in buffer 2.
\<close>

definition ex_picky :: ort_env where
  "ex_picky = ex_tiny\<lparr>decoderRun :=
       (\<lambda>f. if point_labels f = [] then Inl (Error ''Invalid shape for point_labels'')
             else Inr ex_tiny_out)\<rparr>"

definition ex_picky_host :: host_env where
  "ex_picky_host = ex_offline\<lparr>ort := ex_picky\<rparr>"

definition ex_image :: "byte typed_array" where
  "ex_image = \<lparr>buf = Page 1, elems = [0, 0, 0, 255, 255, 255, 255, 255]\<rparr>"

definition ex_encoded :: WebGPUProvider where
  "ex_encoded = fst (snd (preEncodeImage ex_picky_host ex_image 2 1 ex_provider ex_db_cached))"

definition ex_stale :: WebGPUProvider where
  "ex_stale = fst (snd (preEncodeImage ex_picky_host ex_image 2 1 ex_encoded ex_db_cached))"

definition ex_no_points :: SegmentationRequest where
  "ex_no_points =
     \<lparr>req_image = \<lparr>buf = Page 2, elems = [0, 0, 0, 255, 255, 255, 255, 255]\<rparr>,
      req_width = 2, req_height = 1, req_points = []\<rparr>"

text \<open>A pending mask of 2 by 1 pixels on a canvas of 4 by 2, in a page that has a 2D context.\<close>

definition ex_doc :: dom_env where
  "ex_doc = \<lparr>context2d = True, paint = (\<lambda>r t w h. resp_mask r)\<rparr>"

definition ex_pending :: PendingMask where
  "ex_pending =
     \<lparr>pm_response = \<lparr>resp_width = 2, resp_height = 1, resp_mask = [255, 0],
                       resp_logits = None, resp_allMasks = None,
                       resp_selectedMaskIndex = Some 0\<rparr>,
      canvasWidth = 4, canvasHeight = 2\<rparr>"

definition ex_service :: SegmentationService where
  "ex_service = \<lparr>pendingMask = Some ex_pending, fired = []\<rparr>"

section \<open>Auxiliary facts\<close>

subsection \<open>Definitions to unfold when a concrete input is run\<close>

lemmas init_eval = initialize_def initialize_begin_def setState_def loadAllModels_def loadModel_def
  getCachedModel_def cacheModel_def downloadModel_def initialize_failed_def Let_def trackProgress_def
  sendWorkerMessage_def postMessage_throws_def transferList_def
  onmessage_def handleInitialize_def core_initialize_def createSessions_def
  new_worker_def new_SAM2Core_def handleWorkerMessage_def disposeSessions_def SAM2_MODELS_def
  totalSize_def

lemmas host_defs = ex_offline_def ex_online_def ex_provider_def new_WebGPUProvider_def
  ex_db_empty_def ex_db_cached_def ex_ort_def

lemmas decode_eval = decode_def decode_feeds_def decode_output_def processMaskLogits_def resizeMask_def
  mask_to_rgba_def plane_logits_def selectBestMask_def u8_at_def f32_at_def mask_output_def iou_output_def
  scalePoint_def createPointCoordsTensor_def createPointLabelsTensor_def createMaskInputTensor_def
  createHasMaskTensor_def SAM2_INPUT_SIZE_def Let_def

lemmas provider_eval = segmentSingleView_def segment_ready_def segment_begin_def segment_store_def
  segment_response_def sendWorkerMessage_def postMessage_throws_def transferList_def
  onmessage_def handleSegment_def handleDecode_def
  handleEncode_def core_segment_def encodeImage_def handleWorkerMessage_def setState_def

lemmas fixture_defs = ex_tiny_host_def ex_ready_def ex_request_def ex_offline_def ex_provider_def
  new_WebGPUProvider_def ex_tiny_def ex_ort_def ex_core_def ex_tiny_out_def new_SAM2Core_def

lemmas picky_defs = ex_picky_def ex_picky_host_def ex_image_def ex_no_points_def ex_db_cached_def

lemma digits:
  "string_of_nat 1 = ''1''" "string_of_nat 2 = ''2''" "string_of_nat 3 = ''3''" "string_of_nat 4 = ''4''"
  "string_of_nat (Suc 0) = ''1''" "string_of_nat (Suc (Suc 0)) = ''2''"
  "string_of_nat (Suc (Suc (Suc 0))) = ''3''" "string_of_nat (Suc (Suc (Suc (Suc 0)))) = ''4''"
proof -
  show n: "string_of_nat 1 = ''1''" "string_of_nat 2 = ''2''" "string_of_nat 3 = ''3''"
    "string_of_nat 4 = ''4''"
    by code_simp+
  have four: "(4::nat) = Suc (Suc (Suc (Suc 0)))" by simp
  show "string_of_nat (Suc 0) = ''1''" using n(1) by simp
  show "string_of_nat (Suc (Suc 0)) = ''2''" using n(2) unfolding numeral_2_eq_2 .
  show "string_of_nat (Suc (Suc (Suc 0))) = ''3''" using n(3) unfolding numeral_3_eq_3 .
  show "string_of_nat (Suc (Suc (Suc (Suc 0)))) = ''4''" using n(4) unfolding four .
qed

lemmas run_defs = preEncodeImage_def encode_ready_def init_eval provider_eval decode_eval
  host_defs fixture_defs picky_defs digits

subsection \<open>Comparisons and the selection loop\<close>

lemma f32_gt_irrefl: "\<not> f32_gt a a"
  by (cases a) auto

lemma f32_not_gt_trans: "\<not> f32_gt a m \<Longrightarrow> f32_gt v m \<Longrightarrow> \<not> f32_gt a v"
  by (cases a; cases m; cases v) auto

lemma f32_gt_above: "\<not> f32_gt a m \<Longrightarrow> f32_gt v m \<Longrightarrow> a \<noteq> NaN \<Longrightarrow> f32_gt v a"
  by (cases a; cases m; cases v) auto

lemma f32_not_gt_NegInf: "\<not> f32_gt v NegInf \<Longrightarrow> v \<noteq> NaN \<Longrightarrow> v = NegInf"
  by (cases v) auto

lemma best_inv_step:
  assumes "best_inv pre m b" "NaN \<notin> set pre" "v \<noteq> NaN"
  shows "best_inv (pre @ [v]) (if f32_gt v m then v else m) (if f32_gt v m then length pre else b)"
proof (cases "f32_gt v m")
  case True
  have below: "\<not> f32_gt (pre ! j) v \<and> f32_gt v (pre ! j)" if "j < length pre" for j
  proof -
    have "pre ! j \<noteq> NaN"
      using that assms(2) by (metis nth_mem)
    moreover have "\<not> f32_gt (pre ! j) m"
      using that assms(1) by (auto simp: best_inv_def)
    ultimately show ?thesis
      using True f32_not_gt_trans f32_gt_above by blast
  qed
  show ?thesis
    using True below by (auto simp: best_inv_def nth_append less_Suc_eq f32_gt_irrefl)
next
  case False
  show ?thesis
  proof (cases "pre = []")
    case True
    then have "m = NegInf" "b = 0"
      using assms(1) by (auto simp: best_inv_def)
    then have "v = NegInf"
      using False assms(3) f32_not_gt_NegInf by blast
    then show ?thesis
      using True \<open>m = NegInf\<close> \<open>b = 0\<close> by (simp add: best_inv_def)
  next
    case nonempty: False
    then show ?thesis
      using False assms(1) by (auto simp: best_inv_def nth_append less_Suc_eq)
  qed
qed

lemma best_loop_inv:
  assumes "best_inv pre m b" "NaN \<notin> set pre" "NaN \<notin> set vs" "i = length pre"
  shows "best_inv (pre @ vs) (if pre @ vs = [] then NegInf else (pre @ vs) ! best_loop vs i m b) (best_loop vs i m b)"
  using assms
proof (induction vs arbitrary: pre m b i)
  case Nil
  then show ?case by (auto simp: best_inv_def)
next
  case (Cons v vs)
  have step: "best_inv (pre @ [v]) (if f32_gt v m then v else m) (if f32_gt v m then length pre else b)"
    using Cons.prems by (intro best_inv_step) auto
  have "best_inv ((pre @ [v]) @ vs)
          (if (pre @ [v]) @ vs = [] then NegInf
           else ((pre @ [v]) @ vs) ! best_loop vs (Suc i) (if f32_gt v m then v else m) (if f32_gt v m then length pre else b))
          (best_loop vs (Suc i) (if f32_gt v m then v else m) (if f32_gt v m then length pre else b))"
    using Cons.prems by (intro Cons.IH [OF step]) auto
  then show ?case using Cons.prems(4) by (simp split: if_splits)
qed

lemma selectBestMask_argmax:
  assumes "iouData \<noteq> []" "NaN \<notin> set iouData"
  shows "selectBestMask (Some iouData) < length iouData \<and>
         (\<forall>j<length iouData. \<not> f32_gt (iouData ! j) (iouData ! selectBestMask (Some iouData))) \<and>
         (\<forall>j. j < selectBestMask (Some iouData) \<longrightarrow>
              f32_gt (iouData ! selectBestMask (Some iouData)) (iouData ! j))"
proof (cases "1 < length iouData")
  case True
  have "best_inv ([] @ iouData) (if [] @ iouData = [] then NegInf else ([] @ iouData) ! best_loop iouData 0 NegInf 0) (best_loop iouData 0 NegInf 0)"
    using assms by (intro best_loop_inv) (auto simp: best_inv_def)
  then show ?thesis using assms True
    by (auto simp: best_inv_def selectBestMask_def)
next
  case False
  then obtain v where "iouData = [v]" using assms(1)
    by (cases iouData) auto
  then show ?thesis by (simp add: selectBestMask_def f32_gt_irrefl)
qed

subsection \<open>What a successful call went through\<close>

lemma resizeMask_bytes:
  assumes "resizeMask draw msk mw mh tw th = Inr out"
  shows "length out = tw * th \<and> (\<forall>b\<in>set out. b = 0 \<or> b = 255) \<and> 0 < tw \<and> 0 < th"
  using assms by (auto simp: resizeMask_def Let_def split: if_splits option.splits)

lemma build_candidates_nth:
  assumes "build_candidates draw mt iou ms mw mh W H ks = Inr cands"
  shows "length cands = length ks \<and>
         (\<forall>n<length ks.
            resizeMask draw (fst (processMaskLogits mt (ks ! n) (Fin 0))) mw mh W H
              = Inr (cmask (cands ! n)) \<and>
            cindex (cands ! n) = ks ! n \<and>
            iouScore (cands ! n) = (case iou of None \<Rightarrow> Fin 1 | Some d \<Rightarrow> f32_at d (ks ! n)) \<and>
            cwidth (cands ! n) = W \<and> cheight (cands ! n) = H \<and>
            clogits (cands ! n) = plane_logits (data4 mt) ms (ks ! n))"
  using assms
proof (induction ks arbitrary: cands)
  case Nil
  then show ?case by simp
next
  case (Cons k ks)
  then show ?case
    by (auto simp: nth_Cons split: sum.splits nat.splits option.splits)
qed

lemma decode_Inr:
  assumes "decode env imageId points W H prev c = (Inr r, c')"
  shows "\<exists>emb results.
      decoderSession c \<and> ort_loaded c \<and>
      imageEmbeddings c imageId = Some emb \<and>
      c' = c\<lparr>decoderRuns := decoderRuns c @ [decode_feeds c imageId emb points W H prev]\<rparr> \<and>
      decoderRun env (decode_feeds c imageId emb points W H prev) = Inr results \<and>
      decode_output env results W H = Inr r"
  using assms
  by (auto simp: decode_def Let_def split: if_splits option.splits sum.splits)

lemma decode_output_Inr:
  assumes "decode_output env results W H = Inr r"
  shows "\<exists>mt rawMask mw mh cands.
      mask_output results = Some mt \<and>
      processMaskLogits mt (selectBestMask (iou_output results)) (Fin 0) = (rawMask, mw, mh) \<and>
      resizeMask (drawImage env) rawMask mw mh W H = Inr (rmask r) \<and>
      build_candidates (drawImage env) mt (iou_output results) (mw * mh) mw mh W H
         [0..<(case iou_output results of None \<Rightarrow> 1 | Some d \<Rightarrow> length d)] = Inr cands \<and>
      allMasks r = Some cands \<and>
      selectedMaskIndex r = Some (selectBestMask (iou_output results)) \<and>
      rlogits r = Some (plane_logits (data4 mt) (mw * mh) (selectBestMask (iou_output results))) \<and>
      rwidth r = W \<and> rheight r = H"
  using assms unfolding decode_output_def Let_def
  by (auto simp del: upt_Suc split: option.splits sum.splits prod.splits)

lemma deliver_single: "deliver [m] p = (case handleWorkerMessage m p of (s, p1) \<Rightarrow> ((case s of None \<Rightarrow> [] | Some v \<Rightarrow> [v]), p1))"
  by (simp split: prod.splits)

lemma sendWorkerMessage_Resolved:
  assumes "sendWorkerMessage env msg p = (Resolved m, p')"
  shows "\<exists>w w'. pworker p = Some w \<and> handle_request (ort env) msg w = (Inr m, w') \<and>
           pworker p' = Some w' \<and> previousMaskLogits p' = previousMaskLogits p \<and>
           currentImageId p' = currentImageId p \<and> state p' = state p \<and>
           imageIdCounter p' = imageIdCounter p \<and> statusLog p' = statusLog p \<and>
           progressLog p' = progressLog p \<and> currentProvider p' = currentProvider p"
  using assms
  by (auto simp: sendWorkerMessage_def onmessage_def handleWorkerMessage_def Let_def
      split: option.splits prod.splits sum.splits list.splits WorkerResponseMessage.splits
        settle.splits if_splits)

lemma handleSegment_Inr:
  assumes "handle_request oenv (ReqSegment imageId img W H pts prev) w = (Inr m, w')"
  shows "\<exists>c c' r. sam2 w = Some c \<and>
           core_segment oenv imageId (elems img) W H pts (map_option elems prev) c = (Inr r, c') \<and>
           m = Segmented imageId r \<and> w' = w\<lparr>sam2 := Some c'\<rparr>"
  using assms
  by (auto simp: handleSegment_def split: option.splits prod.splits sum.splits)

lemma segment_request_answer:
  assumes "sendWorkerMessage env (ReqSegment imageId img W H pts prev) p = (Resolved m, p')"
  shows "\<exists>r. m = Segmented imageId r"
  using sendWorkerMessage_Resolved [OF assms] handleSegment_Inr by blast








lemma decode_output_shape:
  assumes "decode_output env results W H = Inr r"
  shows "length (rmask r) = W * H \<and> (\<forall>b\<in>set (rmask r). b = 0 \<or> b = 255) \<and>
         (\<exists>cands. selectedMaskIndex r = Some (selectBestMask (iou_output results)) \<and>
            allMasks r = Some cands \<and>
            length cands = (case iou_output results of None \<Rightarrow> 1 | Some d \<Rightarrow> length d) \<and>
            map iouScore cands = (case iou_output results of None \<Rightarrow> [Fin 1] | Some d \<Rightarrow> d) \<and>
            (\<forall>n<length cands. length (cmask (cands ! n)) = W * H \<and> 
                (\<forall>b\<in>set (cmask (cands ! n)). b = 0 \<or> b = 255)) \<and>
            (selectBestMask (iou_output results) < length cands \<longrightarrow>
               cmask (cands ! selectBestMask (iou_output results)) = rmask r \<and>
               rlogits r = Some (clogits (cands ! selectBestMask (iou_output results)))))"
proof -
  define k where "k = selectBestMask (iou_output results)"
  define n where "n = (case iou_output results of None \<Rightarrow> 1 | Some d \<Rightarrow> length d)"
  from decode_output_Inr [OF assms] obtain mt rawMask mw mh cands where
    pm: "processMaskLogits mt k (Fin 0) = (rawMask, mw, mh)"
    and rs: "resizeMask (drawImage env) rawMask mw mh W H = Inr (rmask r)"
    and bc: "build_candidates (drawImage env) mt (iou_output results) (mw * mh) mw mh W H [0..<n] = Inr cands"
    and r: "allMasks r = Some cands" "selectedMaskIndex r = Some k"
       "rlogits r = Some (plane_logits (data4 mt) (mw * mh) k)"
    unfolding k_def n_def by blast
  note nth = build_candidates_nth [OF bc]
  have len: "length cands = n" using nth by simp
  have each: "resizeMask (drawImage env) (fst (processMaskLogits mt j (Fin 0))) mw mh W H = Inr (cmask (cands ! j))"
     "iouScore (cands ! j) = (case iou_output results of None \<Rightarrow> Fin 1 | Some d \<Rightarrow> f32_at d j)"
     "clogits (cands ! j) = plane_logits (data4 mt) (mw * mh) j"
    if "j < n" for j
    using nth that by (auto split: option.splits)
  have scores: "map iouScore cands = (case iou_output results of None \<Rightarrow> [Fin 1] | Some d \<Rightarrow> d)"
  proof (rule nth_equalityI)
    show "length (map iouScore cands) = length (case iou_output results of None \<Rightarrow> [Fin 1] | Some d \<Rightarrow> d)"
      using len by (simp add: n_def split: option.splits)
  next
    fix j assume "j < length (map iouScore cands)"
    then have "j < n" using len by simp
    then show "map iouScore cands ! j = (case iou_output results of None \<Rightarrow> [Fin 1] | Some d \<Rightarrow> d) ! j"
      using each(2) [of j] len by (auto simp: n_def f32_at_def split: option.splits)
  qed
  have sel: "cmask (cands ! k) = rmask r \<and> rlogits r = Some (clogits (cands ! k))" if "k < length cands"
    using each(1) [of k] each(3) [of k] that len rs pm r(3) by simp
  have bytes: "length (cmask (cands ! j)) = W * H \<and> (\<forall>b\<in>set (cmask (cands ! j)). b = 0 \<or> b = 255)"
    if "j < length cands" for j
    using resizeMask_bytes [OF each(1) [of j]] that len by blast
  show ?thesis
    using resizeMask_bytes [OF rs] r len scores sel bytes
    unfolding k_def [symmetric] n_def [symmetric]
    by simp
qed

lemma decode_last_run:
  assumes "decode env imageId points W H prev c = (Inr r, c')"
  shows "\<exists>results. decoderRun env (last (decoderRuns c')) = Inr results \<and>
           decode_output env results W H = Inr r"
  using decode_Inr [OF assms] by auto

subsection \<open>Fields a call leaves alone\<close>

lemma handleWorkerMessage_fields:
  assumes "handleWorkerMessage m p = (s, p')"
  shows "previousMaskLogits p' = previousMaskLogits p \<and> currentImageId p' = currentImageId p \<and>
         imageIdCounter p' = imageIdCounter p \<and> state p' = state p \<and> pworker p' = pworker p \<and>
         progressLog p' = progressLog p \<and> statusLog p' = statusLog p"
  using assms
  by (auto simp: handleWorkerMessage_def split: WorkerResponseMessage.splits list.splits)

lemma onmessage_single: "\<exists>m w'. onmessage env msg w = ([m], w')"
  by (auto simp: onmessage_def split: prod.splits sum.splits)

lemma sendWorkerMessage_fields:
  assumes "sendWorkerMessage env msg p = (res, p')"
  shows "previousMaskLogits p' = previousMaskLogits p \<and> currentImageId p' = currentImageId p \<and>
         imageIdCounter p' = imageIdCounter p \<and> state p' = state p \<and>
         progressLog p' = progressLog p \<and> statusLog p' = statusLog p"
proof (cases "pworker p")
  case None
  then show ?thesis using assms by (auto simp: sendWorkerMessage_def)
next
  case (Some w)
  show ?thesis
  proof (cases "postMessage_throws (detached p) (transferList msg)")
    case True
    then show ?thesis using assms Some by (auto simp: sendWorkerMessage_def Let_def)
  next
    case False
    obtain m w' where om: "onmessage (ort env) msg w = ([m], w')"
      using onmessage_single by blast
    define p1 where "p1 = p\<lparr>requestCounter := Suc (requestCounter p),
                       pendingRequests := pendingRequests p @ [''req_'' @ string_of_nat (Suc (requestCounter p))],
                       pworker := Some w',
                       detached := detached p \<union> set (page_buffers (transferList msg))\<rparr>"
    obtain s p2 where h: "handleWorkerMessage m p1 = (s, p2)"
      by (cases "handleWorkerMessage m p1") auto
    have "p' = p2"
      using assms Some False om h by (simp add: sendWorkerMessage_def Let_def p1_def)
    then show ?thesis
      using handleWorkerMessage_fields [OF h] by (simp add: p1_def)
  qed
qed




subsection \<open>What a request leaves of the engine\<close>

lemma encodeImage_keeps:
  assumes "encodeImage env i d wd ht c = (res, c')"
  shows "encoderSession c' = encoderSession c \<and> decoderSession c' = decoderSession c \<and>
         ort_loaded c' = ort_loaded c \<and> imageEmbeddings c \<subseteq>\<^sub>m imageEmbeddings c'"
  using assms
  by (auto simp: encodeImage_def Let_def map_le_def split: if_splits sum.splits option.splits)

lemma decode_keeps:
  assumes "decode env i pts wd ht prev c = (res, c')"
  shows "encoderSession c' = encoderSession c \<and> decoderSession c' = decoderSession c \<and>
         ort_loaded c' = ort_loaded c \<and> imageEmbeddings c' = imageEmbeddings c"
  using assms
  by (auto simp: decode_def Let_def split: if_splits sum.splits option.splits)

lemma core_segment_keeps:
  assumes "core_segment env i d wd ht pts prev c = (res, c')"
  shows "encoderSession c' = encoderSession c \<and> decoderSession c' = decoderSession c \<and>
         ort_loaded c' = ort_loaded c \<and> imageEmbeddings c \<subseteq>\<^sub>m imageEmbeddings c'"
proof -
  obtain r1 c1 where e: "encodeImage env i d wd ht c = (r1, c1)"
    by (cases "encodeImage env i d wd ht c") auto
  obtain r2 c2 where d: "decode env i pts wd ht prev c1 = (r2, c2)"
    by (cases "decode env i pts wd ht prev c1") auto
  have "c' = c1 \<or> c' = c2"
    using assms e d by (auto simp: core_segment_def split: sum.splits)
  then show ?thesis
    using encodeImage_keeps [OF e] decode_keeps [OF d] by auto
qed

lemma handle_request_keeps:
  assumes "handle_request env msg w = (Inl e, w')" "sam2 w = Some c"
    "request_type msg \<noteq> ''initialize''"
  shows "\<exists>c'. sam2 w' = Some c' \<and> encoderSession c' = encoderSession c \<and>
           decoderSession c' = decoderSession c \<and> ort_loaded c' = ort_loaded c \<and>
           imageEmbeddings c \<subseteq>\<^sub>m imageEmbeddings c'"
proof (cases msg)
  case (ReqInitialize a b o)
  then show ?thesis using assms by simp
next
  case (ReqEncode i d wd ht)
  then show ?thesis
    using assms encodeImage_keeps [of env i "elems d" wd ht c]
    by (auto simp: handleEncode_def split: prod.splits sum.splits)
next
  case (ReqDecode i pts wd ht prev)
  then show ?thesis
    using assms decode_keeps [of env i pts wd ht "map_option elems prev" c]
    by (auto simp: handleDecode_def split: prod.splits sum.splits)
next
  case (ReqSegment i d wd ht pts prev)
  then show ?thesis
    using assms core_segment_keeps [of env i "elems d" wd ht pts "map_option elems prev" c]
    by (auto simp: handleSegment_def split: prod.splits sum.splits)
next
  case (ReqClearCache i)
  then show ?thesis using assms by (auto simp: handleClearCache_def)
next
  case ReqDispose
  then show ?thesis using assms by (auto simp: handleDispose_def)
next
  case ReqGetStatus
  then show ?thesis using assms by (auto simp: handleGetStatus_def)
qed

subsection \<open>The calls of the progress callback\<close>

lemma read_loop_props:
  "sorted (map fst (read_loop cs l t n)) \<and>
   (\<forall>c\<in>set (read_loop cs l t n). l \<le> fst c \<and> fst c \<le> l + length (concat cs) \<and> snd (snd c) = n) \<and>
   (cs \<noteq> [] \<longrightarrow> read_loop cs l t n \<noteq> [] \<and>
      fst (last (read_loop cs l t n)) = l + length (concat cs))"
proof (induction cs arbitrary: l)
  case Nil
  then show ?case by simp
next
  case (Cons v vs)
  show ?case
    using Cons.IH [of "l + length v"]
    by (cases vs) (auto simp: add.assoc)
qed

lemma downloadModel_calls:
  assumes "downloadModel net cfg = (calls, Inr bytes)"
  shows "sorted (map fst calls) \<and>
         (\<forall>c\<in>set calls. fst c \<le> length bytes \<and> snd (snd c) = m_name cfg) \<and>
         (bytes \<noteq> [] \<longrightarrow> calls \<noteq> [] \<and> fst (last calls) = length bytes)"
proof (cases "net (m_url cfg)")
  case (FetchThrows e)
  then show ?thesis using assms by (simp add: downloadModel_def)
next
  case (Response ok status statusText contentLength bdy)
  show ?thesis
  proof (cases bdy)
    case (NoBody r)
    then show ?thesis
      using assms Response by (auto simp: downloadModel_def Let_def split: if_splits sum.splits)
  next
    case (Stream chunks failure)
    define tot where "tot = (case contentLength of None \<Rightarrow> expectedSize cfg | Some n \<Rightarrow> n)"
    have c: "calls = read_loop chunks 0 tot (m_name cfg)" "bytes = concat chunks"
      using assms Response Stream
      by (auto simp: downloadModel_def Let_def tot_def split: if_splits option.splits)
    have "bytes \<noteq> [] \<Longrightarrow> chunks \<noteq> []" using c by auto
    then show ?thesis
      using read_loop_props [of chunks 0 tot "m_name cfg"] c by auto
  qed
qed

lemma loadModel_calls:
  assumes "loadModel net k db = (calls, Inr bytes, db')"
  shows "sorted (map fst calls) \<and>
         (\<forall>c\<in>set calls. fst c \<le> length bytes \<and> snd (snd c) = m_name (SAM2_MODELS k)) \<and>
         (bytes \<noteq> [] \<longrightarrow> calls \<noteq> [] \<and> fst (last calls) = length bytes) \<and>
         store db' = (if getCachedModel k db = None \<and> db_opens db
                      then (store db)(k \<mapsto> bytes) else store db) \<and>
         db_opens db' = db_opens db"
proof (cases "getCachedModel k db")
  case None
  obtain r where d: "downloadModel net (SAM2_MODELS k) = (calls, r)"
    using assms None by (auto simp: loadModel_def split: prod.splits sum.splits)
  then have "r = Inr bytes" "db' = cacheModel k bytes db"
    using assms None by (auto simp: loadModel_def split: sum.splits)
  then show ?thesis
    using downloadModel_calls [of net "SAM2_MODELS k" calls bytes] d None
    by (auto simp: cacheModel_def)
next
  case (Some cached)
  then show ?thesis using assms by (auto simp: loadModel_def)
qed

lemma track_calls_stage:
  assumes "\<forall>c\<in>set calls. snd (snd c) = m_name (SAM2_MODELS k)"
    and "currentModel t = m_name (SAM2_MODELS k)"
  shows "track_calls calls t = (map (overall k) calls, t)"
  using assms
proof (induction calls)
  case Nil
  then show ?case by simp
next
  case (Cons c cs)
  obtain l tt n where c: "c = (l, tt, n)" by (cases c)
  have "trackProgress c t = (overall k c, t)"
    using Cons.prems c
    by (cases k) (auto simp: trackProgress_def overall_def SAM2_MODELS_def Let_def)
  then show ?case using Cons by simp
qed

lemma loadAllModels_Inr:
  assumes "loadAllModels net db = (calls, Inr (encoder, decoder), db')"
  shows "\<exists>calls1 calls2 db1.
      loadModel net EncoderKey db = (calls1, Inr encoder, db1) \<and>
      loadModel net DecoderKey db1 = (calls2, Inr decoder, db') \<and>
      calls = map (overall EncoderKey) calls1 @ map (overall DecoderKey) calls2"
proof -
  obtain calls1 r1 db1 where l1: "loadModel net EncoderKey db = (calls1, r1, db1)"
    by (cases "loadModel net EncoderKey db") auto
  obtain calls2 r2 db2 where l2: "loadModel net DecoderKey db1 = (calls2, r2, db2)"
    by (cases "loadModel net DecoderKey db1") auto
  define t0 where "t0 = \<lparr>totalLoaded = 0, currentModel = m_name (SAM2_MODELS EncoderKey)\<rparr>"
  have r1: "r1 = Inr encoder"
    using assms l1 by (auto simp: loadAllModels_def Let_def split: prod.splits sum.splits)
  have t1: "track_calls calls1 t0 = (map (overall EncoderKey) calls1, t0)"
    using loadModel_calls [OF l1 [unfolded r1]] by (intro track_calls_stage) (auto simp: t0_def)
  have r2: "r2 = Inr decoder" "db2 = db'"
    using assms l1 l2 r1 t1
    by (auto simp: loadAllModels_def Let_def t0_def split: prod.splits sum.splits)
  have t2: "track_calls calls2 (t0\<lparr>currentModel := m_name (SAM2_MODELS DecoderKey)\<rparr>)
      = (map (overall DecoderKey) calls2, t0\<lparr>currentModel := m_name (SAM2_MODELS DecoderKey)\<rparr>)"
    using loadModel_calls [OF l2 [unfolded r2(1)]] by (intro track_calls_stage) auto
  have "calls = map (overall EncoderKey) calls1 @ map (overall DecoderKey) calls2"
    using assms l1 l2 r1 r2 t1 t2
    by (simp add: loadAllModels_def Let_def t0_def)
  then show ?thesis using l1 l2 r1 r2 by auto
qed

lemma initialize_progress:
  assumes "state p \<noteq> Ready" "state p \<noteq> LoadingModels" "state p \<noteq> Initializing"
  shows "progressLog (fst (snd (initialize env p db)))
           = progressLog p @ fst (loadAllModels (fetch env) db)"
proof -
  obtain calls loaded db1 where l: "loadAllModels (fetch env) db = (calls, loaded, db1)"
    by (cases "loadAllModels (fetch env) db") auto
  define p2 where "p2 = (initialize_begin p)\<lparr>progressLog := progressLog (initialize_begin p) @ calls\<rparr>"
  have p2: "progressLog p2 = progressLog p @ calls"
    by (simp add: p2_def initialize_begin_def setState_def)
  have failed: "\<And>e q. progressLog (fst (snd (case initialize_failed e q of (r, p3) \<Rightarrow> (r, p3, db1)))) = progressLog q"
    by (auto simp: initialize_failed_def setState_def split: error.splits)
  show ?thesis
  proof (cases loaded)
    case (Inl e)
    then show ?thesis
      using assms l p2 failed [of e p2]
      by (simp add: initialize_def Let_def p2_def)
  next
    case (Inr models)
    obtain encoder decoder where m: "models = (encoder, decoder)" by (cases models)
    define p3 where "p3 = setState Initializing p2"
    show ?thesis
    proof (cases "spawnWorker env")
      case (Some e)
      then show ?thesis
        using assms l Inr m p2 failed [of e p3]
        by (simp add: initialize_def Let_def p2_def p3_def setState_def)
    next
      case None
      define p4 where "p4 = p3\<lparr>pworker := Some new_worker\<rparr>"
      define msg where "msg = ReqInitialize \<lparr>buf = Fresh, elems = encoder\<rparr>
                                        \<lparr>buf = Fresh, elems = decoder\<rparr>
                                        (Some \<lparr>preferredProvider =
                                                  Some (case opt_preferredProvider p4 of
                                                          None \<Rightarrow> Webgpu | Some v \<Rightarrow> v),
                                                verbose = opt_verbose p4\<rparr>)"
      obtain sres p5 where s: "sendWorkerMessage env msg p4 = (sres, p5)"
        by (cases "sendWorkerMessage env msg p4") auto
      have p5: "progressLog p5 = progressLog p @ calls"
        using sendWorkerMessage_fields [OF s] p2 by (simp add: p4_def p3_def setState_def)
      have unfold: "initialize env p db =
          (case sres of
             Pending \<Rightarrow> (Pending, p5, db1)
           | Rejected e \<Rightarrow> (case initialize_failed e p5 of (r, p6) \<Rightarrow> (r, p6, db1))
           | Resolved result \<Rightarrow>
               (Resolved (case result of Initialized v \<Rightarrow> Some v | _ \<Rightarrow> None),
                (setState Ready (p5\<lparr>currentProvider := (case result of Initialized v \<Rightarrow> Some v | _ \<Rightarrow> None)\<rparr>))
                   \<lparr>abortController := False\<rparr>, db1))"
        using assms l Inr m None s
        by (simp add: initialize_def Let_def p2_def p3_def p4_def msg_def split: promise.splits)
      show ?thesis
        using p5 failed l
        unfolding unfold
        by (cases sres) (auto simp: setState_def)
    qed
  qed
qed

lemma ex_cold_load:
  "loadAllModels (fetch ex_online) ex_db_empty =
     ([(2, 59768832, ''SAM2 Encoder''), (3, 59768832, ''SAM2 Encoder''),
       (44040193, 59768832, ''SAM2 Decoder'')],
      Inr ([1, 2, 3], [4]),
      \<lparr>db_opens = True, store = Map.empty(EncoderKey \<mapsto> [1, 2, 3], DecoderKey \<mapsto> [4])\<rparr>)"
  by (simp add: init_eval host_defs)

subsection \<open>The feeds of a segmentation, and when it resolves\<close>









subsection \<open>Errors of the worker, and the request the provider settles\<close>

lemma onmessage_catches:
  "(handle_request env msg w = (Inl e, w') \<longrightarrow>
      onmessage env msg w = ([ErrorResponse (error_message e) (request_type msg)], w')) \<and>
   (handle_request env msg w = (Inr r, w') \<longrightarrow> onmessage env msg w = ([r], w')) \<and>
   length (fst (onmessage env msg w)) = 1"
  by (auto simp: onmessage_def split: prod.splits sum.splits)

lemma error_response_rejects_oldest:
  assumes "pendingRequests p = requestId # rest"
  shows "handleWorkerMessage (ErrorResponse m t) p =
           (Some (Reject requestId (SegmentationError m SERVER_ERROR (Some t))),
            p\<lparr>pendingRequests := rest\<rparr>)"
  using assms by (simp add: handleWorkerMessage_def)

lemma sendWorkerMessage_post_throws:
  assumes "pworker p = Some w" "postMessage_throws (detached p) (transferList msg)"
  shows "sendWorkerMessage henv msg p =
           (Rejected (DataCloneError (cloneError henv)),
            p\<lparr>requestCounter := Suc (requestCounter p),
              pendingRequests := pendingRequests p @
                [''req_'' @ string_of_nat (Suc (requestCounter p))]\<rparr>)"
  using assms by (simp add: sendWorkerMessage_def Let_def)

lemma sendWorkerMessage_rejects:
  assumes "pworker p = Some w" "pendingRequests p = []"
    and "\<not> postMessage_throws (detached p) (transferList msg)"
    and "handle_request (ort henv) msg w = (Inl e, w')"
  shows "\<exists>p'. sendWorkerMessage henv msg p =
              (Rejected (SegmentationError (error_message e) SERVER_ERROR
                           (Some (request_type msg))), p') \<and>
            pworker p' = Some w' \<and> pendingRequests p' = [] \<and> state p' = state p"
  using assms
  by (simp add: sendWorkerMessage_def onmessage_def handleWorkerMessage_def Let_def)

lemma sendWorkerMessage_stale:
  assumes "pworker p = Some w" "pendingRequests p = stale # rest"
    and "stale \<noteq> ''req_'' @ string_of_nat (Suc (requestCounter p))"
    and "\<not> postMessage_throws (detached p) (transferList msg)"
    and "handle_request (ort henv) msg w = (Inl e, w')"
  shows "\<exists>p'. sendWorkerMessage henv msg p = (Pending, p') \<and>
            pendingRequests p' = rest @ [''req_'' @ string_of_nat (Suc (requestCounter p))]"
  using assms
  by (simp add: sendWorkerMessage_def onmessage_def handleWorkerMessage_def Let_def)

lemma ex_worker_goes_on:
  "fst (onmessage ex_strict ex_bad_decode ex_worker)
     = [ErrorResponse ''Invalid shape for mask_input'' ''decode''] \<and>
   (\<exists>c'. sam2 (snd (onmessage ex_strict ex_bad_decode ex_worker)) = Some c' \<and>
         encoderSession c' \<and> decoderSession c') \<and>
   (\<exists>r. fst (onmessage ex_strict ex_good_decode (snd (onmessage ex_strict ex_bad_decode ex_worker)))
          = [Decoded ''img_1'' r] \<and> rmask r = [255, 255])"
proof -
  define w1 where "w1 = snd (onmessage ex_strict ex_bad_decode ex_worker)"
  have w1: "w1 = \<lparr>sam2 = Some (ex_core\<lparr>decoderRuns :=
       [decode_feeds ex_core ''img_1'' \<lparr>tdata = [], tdims = [1]\<rparr>
          [\<lparr>px = Fin 1, py = Fin 0, ptype = Fg\<rparr>] 2 1 (Some [Fin 0])]\<rparr>)\<rparr>"
    unfolding w1_def
    by (simp add: onmessage_def handleDecode_def decode_def ex_strict_def ex_tiny_def ex_ort_def
        ex_core_def new_SAM2Core_def ex_worker_def ex_bad_decode_def Let_def
        decode_feeds_def createMaskInputTensor_def)
  have bad: "fst (onmessage ex_strict ex_bad_decode ex_worker)
      = [ErrorResponse ''Invalid shape for mask_input'' ''decode'']"
    by (simp add: onmessage_def handleDecode_def decode_def ex_strict_def ex_tiny_def ex_ort_def
        ex_core_def new_SAM2Core_def ex_worker_def ex_bad_decode_def Let_def
        decode_feeds_def createMaskInputTensor_def)
  have core: "\<exists>c'. sam2 w1 = Some c' \<and> encoderSession c' \<and> decoderSession c'"
    unfolding w1 by (simp add: ex_core_def new_SAM2Core_def)
  have good: "\<exists>r. fst (onmessage ex_strict ex_good_decode w1) = [Decoded ''img_1'' r] \<and> rmask r = [255, 255]"
    unfolding w1
    by (simp add: onmessage_def handleDecode_def decode_eval ex_strict_def ex_tiny_def ex_ort_def
        ex_core_def new_SAM2Core_def ex_good_decode_def ex_tiny_out_def upt_conv_Cons)
  show ?thesis
    using bad core good unfolding w1_def by simp
qed

section \<open>Properties\<close>

subsection \<open>The shape of a segmentation result\<close>



subsection \<open>The selected mask\<close>

text \<open>
  C2. After a successful \<open>decode\<close>, let \<open>results\<close> be what the decoder returned for the feeds
  of this call. When it carries IoU predictions (\<open>iou_predictions\<close>, else \<open>iou_pred\<close>), the
  candidates carry these scores in order and, the scores being numbers (no NaN) and at
  least one, the selected index is in range, no score is greater than the selected one,
  and the selected score is greater than every score before it: the argmax, ties broken
  toward the smallest index. When it carries none, the selected index is 0 and every
  candidate returned (there is one) has \<open>iouScore\<close> 1.0.
\<close>

theorem decode_selects_best_iou:
  assumes "decode env imageId points W H prev c = (Inr r, c')"
  shows "\<exists>results k cands.
      decoderRun env (last (decoderRuns c')) = Inr results \<and>
      selectedMaskIndex r = Some k \<and> allMasks r = Some cands \<and>
      (case iou_output results of
         None \<Rightarrow> k = 0 \<and> map iouScore cands = [Fin 1]
       | Some iouData \<Rightarrow>
           map iouScore cands = iouData \<and>
           (iouData \<noteq> [] \<and> NaN \<notin> set iouData \<longrightarrow>
              k < length iouData \<and>
              (\<forall>j<length iouData. \<not> f32_gt (iouData ! j) (iouData ! k)) \<and>
              (\<forall>j. j < k \<longrightarrow> f32_gt (iouData ! k) (iouData ! j))))"
proof -
  from decode_last_run [OF assms] obtain results where
    run: "decoderRun env (last (decoderRuns c')) = Inr results"
    and out: "decode_output env results W H = Inr r" by blast
  from decode_output_shape [OF out] obtain cands where
    sel: "selectedMaskIndex r = Some (selectBestMask (iou_output results))"
    and all: "allMasks r = Some cands"
    and scores: "map iouScore cands = (case iou_output results of None \<Rightarrow> [Fin 1] | Some d \<Rightarrow> d)"
    by blast
  show ?thesis
  proof (cases "iou_output results")
    case None
    then show ?thesis using run sel all scores by (simp add: selectBestMask_def)
  next
    case (Some iouData)
    then show ?thesis
      using run sel all scores selectBestMask_argmax [of iouData] by simp
  qed
qed

theorem decode_selects_best_iou_witness:
  "\<exists>r c'. decode ex_tiny ''img_1'' [\<lparr>px = Fin 1, py = Fin 0, ptype = Fg\<rparr>] 2 1 None ex_core = (Inr r, c') \<and>
      decoderRun ex_tiny (last (decoderRuns c')) = Inr ex_tiny_out \<and>
      iou_output ex_tiny_out = Some [Fin (7 / 10), Fin (9 / 10), Fin (8 / 10)] \<and>
      NaN \<notin> set [Fin (7 / 10), Fin (9 / 10), Fin (8 / 10)] \<and>
      selectedMaskIndex r = Some 1 \<and>
      map iouScore (the (allMasks r)) = [Fin (7 / 10), Fin (9 / 10), Fin (8 / 10)]"
proof -
  obtain res c' where run: "decode ex_tiny ''img_1'' [\<lparr>px = Fin 1, py = Fin 0, ptype = Fg\<rparr>] 2 1 None ex_core = (res, c')"
    by (cases "decode ex_tiny ''img_1'' [\<lparr>px = Fin 1, py = Fin 0, ptype = Fg\<rparr>] 2 1 None ex_core") auto
  have "\<exists>r. fst (decode ex_tiny ''img_1'' [\<lparr>px = Fin 1, py = Fin 0, ptype = Fg\<rparr>] 2 1 None ex_core) = Inr r"
    by (simp add: decode_eval ex_tiny_def ex_ort_def ex_core_def ex_tiny_out_def new_SAM2Core_def upt_conv_Cons)
  then obtain r where res: "res = Inr r" using run by auto
  have iou: "iou_output ex_tiny_out = Some [Fin (7 / 10), Fin (9 / 10), Fin (8 / 10)]"
    by (simp add: iou_output_def ex_tiny_out_def)
  have dr: "\<And>f. decoderRun ex_tiny f = Inr ex_tiny_out"
    by (simp add: ex_tiny_def)
  from decode_selects_best_iou [OF run [unfolded res]] obtain k cands where
    k: "selectedMaskIndex r = Some k" "allMasks r = Some cands"
       "map iouScore cands = [Fin (7 / 10), Fin (9 / 10), Fin (8 / 10)]"
       "k < 3" "\<forall>j<3. \<not> f32_gt ([Fin (7 / 10), Fin (9 / 10), Fin (8 / 10)] ! j) ([Fin (7 / 10), Fin (9 / 10), Fin (8 / 10)] ! k)"
    by (auto simp: dr iou)
  have "k = 1"
  proof -
    have "k = 0 \<or> k = 1 \<or> k = 2" using k(4) by auto
    then show ?thesis using k(5) by (auto simp: less_Suc_eq numeral_3_eq_3)
  qed
  then show ?thesis using run res k iou dr by simp
qed

subsection \<open>Iterative refinement\<close>



subsection \<open>Encoding twice\<close>

text \<open>
  C4. Let the encoder return an \<open>image_embed\<close> whenever it returns. After a successful
  \<open>encodeImage\<close> for an image id the engine holds an embedding for that id, and encoding
  again under the same id, whatever the image and whatever the runtime would do if it
  were asked, returns 0 ms and leaves the engine as it is: the caches and the list of
  encoder runs are unchanged.
\<close>

theorem encodeImage_idempotent:
  assumes "encodeImage env imageId imageData width height c = (Inr t, c1)"
    and "\<forall>x out. encoderRun env x = Inr out \<longrightarrow> e_image_embed out \<noteq> None"
  shows "imageEmbeddings c1 imageId \<noteq> None \<and>
         encodeImage env2 imageId imageData2 width2 height2 c1 = (Inr 0, c1)"
proof -
  have emb: "\<And>x out. encoderRun env x = Inr out \<Longrightarrow> \<exists>y. e_image_embed out = Some y"
    using assms(2) by auto
  have "encoderSession c1 \<and> ort_loaded c1 \<and> imageEmbeddings c1 imageId \<noteq> None"
    using assms(1)
    by (auto simp: encodeImage_def Let_def split: if_splits sum.splits option.splits dest!: emb)
  then show ?thesis
    by (simp add: encodeImage_def)
qed

theorem encodeImage_idempotent_witness:
  "encoderRun ex_ort = (\<lambda>t. Inr \<lparr>e_image_embed = Some t, e_high_res_feats_0 = None,
                                    e_high_res_feats_1 = None\<rparr>) \<and>
   fst (encodeImage ex_ort ''img_1'' [0, 0, 0, 255] 1 1 ex_core_fresh) = Inr 120 \<and>
   length (encoderRuns (snd (encodeImage ex_ort ''img_1'' [0, 0, 0, 255] 1 1 ex_core_fresh))) = 1 \<and>
   encodeImage ex_ort ''img_1'' [0, 0, 0, 255] 1 1
       (snd (encodeImage ex_ort ''img_1'' [0, 0, 0, 255] 1 1 ex_core_fresh))
     = (Inr 0, snd (encodeImage ex_ort ''img_1'' [0, 0, 0, 255] 1 1 ex_core_fresh))"
proof -
  have contract: "\<forall>x out. encoderRun ex_ort x = Inr out \<longrightarrow> e_image_embed out \<noteq> None"
    by (auto simp: ex_ort_def)
  have first: "fst (encodeImage ex_ort ''img_1'' [0, 0, 0, 255] 1 1 ex_core_fresh) = Inr 120"
    "length (encoderRuns (snd (encodeImage ex_ort ''img_1'' [0, 0, 0, 255] 1 1 ex_core_fresh))) = 1"
    by (simp_all add: encodeImage_def ex_ort_def ex_core_fresh_def new_SAM2Core_def)
  then have run: "encodeImage ex_ort ''img_1'' [0, 0, 0, 255] 1 1 ex_core_fresh
      = (Inr 120, snd (encodeImage ex_ort ''img_1'' [0, 0, 0, 255] 1 1 ex_core_fresh))"
    by (metis prod.collapse)
  from encodeImage_idempotent [OF run contract, of ex_ort "[0, 0, 0, 255]" 1 1]
  show ?thesis using first by (simp add: ex_ort_def)
qed

subsection \<open>Initializing the provider\<close>

text \<open>
  C5, as the specification states it, fails: a call of \<open>initialize\<close> made while another one
  is in flight (the provider is in the state the first call set before its first
  \<open>await\<close>) is rejected, it does not share the result of the first call.
\<close>

theorem initialize_in_flight_counterexample:
  "fst (initialize ex_online (initialize_begin ex_provider) ex_db_empty)
     = Rejected (Error ''Initialization already in progress'')"
  by (simp add: initialize_def initialize_begin_def setState_def)

text \<open>
  C5, amended. \<open>initialize\<close> called when the provider is ready resolves with the current
  execution provider and changes nothing. Called in state loading-models or initializing
  (another call is in flight) it is rejected with "Initialization already in progress" and
  changes nothing. Called in any other state, a rejection leaves the provider in state
  error; and a call in state error does exactly what a call in state idle does.
\<close>

theorem initialize_idempotent:
  "(state p = Ready \<longrightarrow> initialize env p db = (Resolved (currentProvider p), p, db)) \<and>
   (state p = LoadingModels \<or> state p = Initializing \<longrightarrow>
      initialize env p db = (Rejected (Error ''Initialization already in progress''), p, db)) \<and>
   (state p \<noteq> Ready \<and> state p \<noteq> LoadingModels \<and> state p \<noteq> Initializing \<and>
    fst (initialize env p db) = Rejected e \<longrightarrow>
      state (fst (snd (initialize env p db))) = ErrorState) \<and>
   (state p = ErrorState \<longrightarrow> initialize env p db = initialize env (p\<lparr>state := Idle\<rparr>) db)"
proof -
  have failed: "\<And>e q r q'. initialize_failed e q = (r, q') \<Longrightarrow> state q' = ErrorState"
    by (auto simp: initialize_failed_def setState_def split: error.splits)
  have "state p \<noteq> Ready \<Longrightarrow> state p \<noteq> LoadingModels \<Longrightarrow> state p \<noteq> Initializing \<Longrightarrow>
        fst (initialize env p db) = Rejected e \<Longrightarrow>
        state (fst (snd (initialize env p db))) = ErrorState"
    by (auto simp: initialize_def Let_def
        split: prod.splits sum.splits option.splits promise.splits dest: failed)
  moreover have "state p = ErrorState \<Longrightarrow>
        initialize env p db = initialize env (p\<lparr>state := Idle\<rparr>) db"
    by (simp add: initialize_def initialize_begin_def setState_def)
  ultimately show ?thesis
    by (auto simp: initialize_def)
qed

theorem initialize_idempotent_witness:
  "state (initialize_begin ex_provider) = LoadingModels \<and>
   initialize ex_online (initialize_begin ex_provider) ex_db_cached
     = (Rejected (Error ''Initialization already in progress''), initialize_begin ex_provider,
        ex_db_cached) \<and>
   state ex_provider = Idle \<and>
   fst (initialize ex_offline ex_provider ex_db_empty) = Rejected (Error ''offline'') \<and>
   state (fst (snd (initialize ex_offline ex_provider ex_db_empty))) = ErrorState \<and>
   fst (initialize ex_online (fst (snd (initialize ex_offline ex_provider ex_db_empty))) ex_db_cached)
     = Resolved (Some Webgpu) \<and>
   state (fst (snd (initialize ex_online
            (fst (snd (initialize ex_offline ex_provider ex_db_empty))) ex_db_cached))) = Ready \<and>
   state ex_ready = Ready \<and>
   initialize ex_online ex_ready ex_db_cached = (Resolved (Some Webgpu), ex_ready, ex_db_cached)"
proof -
  define q where "q = fst (snd (initialize ex_offline ex_provider ex_db_empty))"
  have s0: "state (initialize_begin ex_provider) = LoadingModels" "state ex_provider = Idle"
    "state ex_ready = Ready" "currentProvider ex_ready = Some Webgpu"
    by (simp_all add: initialize_begin_def setState_def ex_provider_def new_WebGPUProvider_def
        ex_ready_def)
  have f: "fst (initialize ex_offline ex_provider ex_db_empty) = Rejected (Error ''offline'')"
    by (simp add: init_eval host_defs)
  have ok: "fst (initialize ex_online q ex_db_cached) = Resolved (Some Webgpu)"
    "state (fst (snd (initialize ex_online q ex_db_cached))) = Ready"
    unfolding q_def by (simp_all add: init_eval host_defs)
  note a = initialize_idempotent [of "initialize_begin ex_provider" ex_online ex_db_cached
      "Error ''offline''"]
  note b = initialize_idempotent [of ex_provider ex_offline ex_db_empty "Error ''offline''"]
  note c = initialize_idempotent [of ex_ready ex_online ex_db_cached "Error ''offline''"]
  show ?thesis
    using a b c s0 f ok unfolding q_def [symmetric] by simp
qed

subsection \<open>Errors inside the worker\<close>

text \<open>
  C6. What the worker does is as the specification says: a throw inside a handler becomes
  one \<open>error\<close> response with the type of the request, the engine stays, and later
  requests are answered (\<open>onmessage_catches\<close>, \<open>handle_request_keeps\<close>,
  \<open>ex_worker_goes_on\<close>). The provider gives an \<open>error\<close> response to the oldest
  registered request (\<open>error_response_rejects_oldest\<close>); a call sent when no other
  request is registered is rejected with the error (\<open>sendWorkerMessage_rejects\<close>). But a
  request whose \<open>postMessage\<close> threw was never posted and stays registered
  (\<open>sendWorkerMessage_post_throws\<close>), and then the \<open>error\<close> response to a later request
  goes to it and the later call is never rejected (\<open>sendWorkerMessage_stale\<close>).

  Here a new provider pre-encodes an image, which loads the models, starts the worker and
  transfers the buffer of the image, and pre-encodes the same image again: the second call
  is rejected with the \<open>DataCloneError\<close> and leaves \<open>req_3\<close> registered. The decoder then
  throws on a segmentation request: the worker answers with the \<open>error\<close> response, the
  provider gives it to \<open>req_3\<close>, and the call that sent the request stays pending, with
  \<open>req_4\<close> registered and the provider in state \<open>processing\<close>. Without the second
  pre-encoding the same call is rejected with the \<open>SegmentationError\<close> of the response.
\<close>

theorem error_response_after_failed_post:
  "fst (preEncodeImage ex_picky_host ex_image 2 1 ex_provider ex_db_cached) = Resolved (Some 120) \<and>
   state ex_encoded = Ready \<and> pendingRequests ex_encoded = [] \<and> detached ex_encoded = {1} \<and>
   fst (preEncodeImage ex_picky_host ex_image 2 1 ex_encoded ex_db_cached)
     = Rejected (DataCloneError ''ArrayBuffer at index 0 is already detached.'') \<and>
   state ex_stale = Ready \<and> pendingRequests ex_stale = [''req_3''] \<and>
   fst (onmessage ex_picky
          (ReqSegment ''img_1'' (req_image ex_no_points) 2 1 [] None) (the (pworker ex_stale)))
     = [ErrorResponse ''Invalid shape for point_labels'' ''segment''] \<and>
   (\<exists>p'. segmentSingleView ex_picky_host ex_no_points ex_stale ex_db_cached
           = (Pending, p', ex_db_cached) \<and>
         pendingRequests p' = [''req_4''] \<and> state p' = Processing) \<and>
   fst (segmentSingleView ex_picky_host ex_no_points ex_encoded ex_db_cached)
     = Rejected (SegmentationError ''Invalid shape for point_labels'' SERVER_ERROR (Some ''segment''))"
proof -
  define p1 where "p1 =
     \<lparr>pworker = Some \<lparr>sam2 = Some
        \<lparr>ort_loaded = True, encoderSession = True, decoderSession = True,
         imageEmbeddings = [''img_1'' \<mapsto> \<lparr>tdata = [], tdims = [1, 3, 1024, 1024]\<rparr>],
         highResFeatures = Map.empty,
         cachedImageData = [''img_1'' \<mapsto> ([0, 0, 0, 255, 255, 255, 255, 255], 2, 1)],
         coreProvider = Webgpu, coreVerbose = True,
         encoderRuns = [\<lparr>tdata = [], tdims = [1, 3, 1024, 1024]\<rparr>], decoderRuns = []\<rparr>\<rparr>,
      state = Ready, capabilities = None, currentProvider = Some Webgpu,
      pendingRequests = [], requestCounter = 2, abortController = False, imageIdCounter = 1,
      previousMaskLogits = Map.empty, currentImageId = Some ''img_1'',
      opt_preferredProvider = None, opt_verbose = None,
      statusLog = [LoadingModels, Initializing, Ready],
      progressLog = [(3, 59768832, ''SAM2 Encoder''), (44040193, 59768832, ''SAM2 Decoder'')],
      detached = {1}\<rparr>"
  have enc: "preEncodeImage ex_picky_host ex_image 2 1 ex_provider ex_db_cached
      = (Resolved (Some 120), p1, ex_db_cached)"
    by (simp add: run_defs p1_def)
  have e: "ex_encoded = p1"
    unfolding ex_encoded_def enc by simp
  have rep: "preEncodeImage ex_picky_host ex_image 2 1 p1 ex_db_cached
      = (Rejected (DataCloneError ''ArrayBuffer at index 0 is already detached.''),
         p1\<lparr>requestCounter := 3, pendingRequests := [''req_3'']\<rparr>, ex_db_cached)"
    by (simp add: run_defs p1_def)
  have s: "ex_stale = p1\<lparr>requestCounter := 3, pendingRequests := [''req_3'']\<rparr>"
    unfolding ex_stale_def e rep by simp
  have w: "fst (onmessage ex_picky
          (ReqSegment ''img_1'' (req_image ex_no_points) 2 1 [] None) (the (pworker ex_stale)))
     = [ErrorResponse ''Invalid shape for point_labels'' ''segment'']"
    unfolding s by (simp add: run_defs p1_def)
  have lost: "\<exists>p'. segmentSingleView ex_picky_host ex_no_points ex_stale ex_db_cached
                   = (Pending, p', ex_db_cached) \<and>
                 pendingRequests p' = [''req_4''] \<and> state p' = Processing"
    unfolding s by (simp add: run_defs p1_def)
  have told: "fst (segmentSingleView ex_picky_host ex_no_points ex_encoded ex_db_cached)
     = Rejected (SegmentationError ''Invalid shape for point_labels'' SERVER_ERROR (Some ''segment''))"
    unfolding e by (simp add: run_defs p1_def)
  have fields: "state p1 = Ready" "pendingRequests p1 = []" "detached p1 = {1}"
    by (simp_all add: p1_def)
  show ?thesis
    unfolding e s using enc rep w lost told fields unfolding e s by simp
qed

subsection \<open>Progress of the model load\<close>

text \<open>
  C7, as the specification states it, fails. On a cold start (nothing cached) where the
  encoder arrives in chunks of 2 and 1 bytes and the decoder in one chunk of 1 byte, the
  progress callbacks of \<open>initialize\<close> are (2, total), (3, total) and (44040193, total) with
  total = 59768832: the last callback does not have \<open>loaded = total\<close>.
\<close>

theorem progress_final_counterexample:
  "getCachedModel EncoderKey ex_db_empty = None \<and> getCachedModel DecoderKey ex_db_empty = None \<and>
   progressLog (fst (snd (initialize ex_online ex_provider ex_db_empty)))
     = [(2, 59768832, ''SAM2 Encoder''), (3, 59768832, ''SAM2 Encoder''),
        (44040193, 59768832, ''SAM2 Decoder'')] \<and>
   fst (last (progressLog (fst (snd (initialize ex_online ex_provider ex_db_empty)))))
     \<noteq> fst (snd (last (progressLog (fst (snd (initialize ex_online ex_provider ex_db_empty))))))"
proof -
  have "progressLog (fst (snd (initialize ex_online ex_provider ex_db_empty)))
     = [(2, 59768832, ''SAM2 Encoder''), (3, 59768832, ''SAM2 Encoder''),
        (44040193, 59768832, ''SAM2 Decoder'')]"
    by (simp add: init_eval host_defs)
  then show ?thesis
    by (simp add: getCachedModel_def ex_db_empty_def)
qed

text \<open>
  C7, amended. When \<open>loadAllModels\<close> succeeds, the progress callbacks of \<open>initialize\<close> are
  those of \<open>loadAllModels\<close>: the calls of the encoder stage with \<open>loaded\<close> the encoder bytes
  so far, then the calls of the decoder stage with \<open>loaded\<close> the expected encoder size
  (42 MiB) plus the decoder bytes so far, all with \<open>total\<close> the sum of the two expected
  sizes (57 MiB). Within each stage \<open>loaded\<close> never decreases; over both stages it never
  decreases provided the encoder is not larger than its expected size. For a non-empty
  decoder the last callback has \<open>loaded\<close> = 42 MiB + the size of the decoder, which is
  \<open>total\<close> exactly when the decoder has its expected size of 15 MiB.
\<close>

theorem progress_of_loading:
  assumes "loadAllModels (fetch env) db = (calls, Inr (encoder, decoder), db')"
    and "state p \<noteq> Ready" "state p \<noteq> LoadingModels" "state p \<noteq> Initializing"
  shows "progressLog (fst (snd (initialize env p db))) = progressLog p @ calls \<and>
         (\<exists>calls1 calls2 db1.
            loadModel (fetch env) EncoderKey db = (calls1, Inr encoder, db1) \<and>
            loadModel (fetch env) DecoderKey db1 = (calls2, Inr decoder, db') \<and>
            sorted (map fst calls1) \<and> sorted (map fst calls2) \<and>
            calls = map (\<lambda>c. (fst c, 59768832, ''SAM2 Encoder'')) calls1 @
                    map (\<lambda>c. (44040192 + fst c, 59768832, ''SAM2 Decoder'')) calls2) \<and>
         (length encoder \<le> 44040192 \<longrightarrow> sorted (map fst calls)) \<and>
         (decoder \<noteq> [] \<longrightarrow>
            calls \<noteq> [] \<and> last calls = (44040192 + length decoder, 59768832, ''SAM2 Decoder'') \<and>
            (fst (last calls) = fst (snd (last calls)) \<longleftrightarrow> length decoder = 15728640))"
proof -
  from loadAllModels_Inr [OF assms(1)] obtain calls1 calls2 db1 where
    l1: "loadModel (fetch env) EncoderKey db = (calls1, Inr encoder, db1)"
    and l2: "loadModel (fetch env) DecoderKey db1 = (calls2, Inr decoder, db')"
    and calls: "calls = map (overall EncoderKey) calls1 @ map (overall DecoderKey) calls2"
    by blast
  note p1 = loadModel_calls [OF l1]
  note p2 = loadModel_calls [OF l2]
  have o1: "map (overall EncoderKey) calls1 = map (\<lambda>c. (fst c, 59768832, ''SAM2 Encoder'')) calls1"
    using p1 by (auto simp: overall_def totalSize_def SAM2_MODELS_def)
  have o2: "map (overall DecoderKey) calls2 = map (\<lambda>c. (44040192 + fst c, 59768832, ''SAM2 Decoder'')) calls2"
    using p2 by (auto simp: overall_def totalSize_def SAM2_MODELS_def)
  have f1: "map fst (map (\<lambda>c. (fst c, 59768832::nat, ''SAM2 Encoder'')) calls1) = map fst calls1"
    by (simp add: comp_def)
  have f2: "map fst (map (\<lambda>c. (44040192 + fst c, 59768832::nat, ''SAM2 Decoder'')) calls2)
      = map (\<lambda>x. 44040192 + x) (map fst calls2)"
    by (simp add: comp_def)
  have s2: "sorted (map (\<lambda>x. 44040192 + x) (map fst calls2))"
    using p2 by (simp add: sorted_map sorted_wrt_iff_nth_less)
  have mono: "sorted (map fst calls)" if "length encoder \<le> 44040192"
    unfolding calls o1 o2 map_append f1 f2 sorted_append
    using p1 s2 that by fastforce
  have fin: "calls \<noteq> [] \<and> last calls = (44040192 + length decoder, 59768832, ''SAM2 Decoder'')"
    if "decoder \<noteq> []"
  proof -
    have ne: "calls2 \<noteq> []" "fst (last calls2) = length decoder" using p2 that by auto
    then show ?thesis
      unfolding calls o1 o2 by (simp add: last_map)
  qed
  show ?thesis
    using initialize_progress [OF assms(2-4), of env db] assms(1) l1 l2 p1 p2 calls o1 o2 mono fin
    by auto
qed

theorem progress_of_loading_witness:
  "loadAllModels (fetch ex_online) ex_db_empty =
     ([(2, 59768832, ''SAM2 Encoder''), (3, 59768832, ''SAM2 Encoder''),
       (44040193, 59768832, ''SAM2 Decoder'')],
      Inr ([1, 2, 3], [4]),
      \<lparr>db_opens = True, store = Map.empty(EncoderKey \<mapsto> [1, 2, 3], DecoderKey \<mapsto> [4])\<rparr>) \<and>
   state ex_provider \<noteq> Ready \<and> state ex_provider \<noteq> LoadingModels \<and>
   state ex_provider \<noteq> Initializing \<and>
   progressLog (fst (snd (initialize ex_online ex_provider ex_db_empty)))
     = [(2, 59768832, ''SAM2 Encoder''), (3, 59768832, ''SAM2 Encoder''),
        (44040193, 59768832, ''SAM2 Decoder'')] \<and>
   sorted (map fst [(2, 59768832, ''SAM2 Encoder''), (3, 59768832, ''SAM2 Encoder''),
        (44040193::nat, 59768832::nat, ''SAM2 Decoder'')]) \<and>
   length [1, 2, 3 :: byte] \<le> 44040192 \<and> [4 :: byte] \<noteq> [] \<and>
   length [4 :: byte] \<noteq> 15728640"
proof -
  have st: "state ex_provider \<noteq> Ready" "state ex_provider \<noteq> LoadingModels"
    "state ex_provider \<noteq> Initializing" "progressLog ex_provider = []"
    by (simp_all add: ex_provider_def new_WebGPUProvider_def)
  from progress_of_loading [OF ex_cold_load st(1-3)] st(4)
  show ?thesis using ex_cold_load st by simp
qed

subsection \<open>Applying and cancelling the pending mask\<close>

text \<open>
  C8. In a page where a 2D canvas context can be had, and for a pending mask of non-zero
  size: \<open>applyPendingMask\<close> throws nothing, fires exactly \<open>select.byMask\<close> (operation add, a
  canvas of the stored canvas size) and then \<open>sam.maskApplied\<close>, and clears the pending
  mask; \<open>cancelPendingMask\<close> fires exactly \<open>sam.maskCancelled\<close> and clears it. Without a
  pending mask both change nothing and fire nothing, so a second apply, an apply after a
  cancel, and a cancel after an apply do nothing.
\<close>

theorem applyMask_consumes_pending:
  assumes "context2d doc"
    and "pendingMask svc = Some pm"
    and "0 < resp_width (pm_response pm)"
    and "0 < resp_height (pm_response pm)"
  shows "\<exists>cv svc1 svc2.
       applyPendingMask doc svc = (None, svc1) \<and>
       pendingMask svc1 = None \<and>
       fired svc1 = fired svc @ [SelectByMask Add cv,
                                 MaskApplied (resp_width (pm_response pm))
                                             (resp_height (pm_response pm))] \<and>
       cv_width cv = canvasWidth pm \<and> cv_height cv = canvasHeight pm \<and>
       applyPendingMask doc svc1 = (None, svc1) \<and>
       cancelPendingMask svc1 = svc1 \<and>
       cancelPendingMask svc = svc2 \<and>
       pendingMask svc2 = None \<and>
       fired svc2 = fired svc @ [MaskCancelled] \<and>
       applyPendingMask doc svc2 = (None, svc2) \<and>
       cancelPendingMask svc2 = svc2"
  using assms
  by (simp add: applyPendingMask_def cancelPendingMask_def applyMaskToSelection_def
      determineSelectionOp_def)

theorem applyMask_consumes_pending_witness:
  "context2d ex_doc \<and> pendingMask ex_service = Some ex_pending \<and>
   0 < resp_width (pm_response ex_pending) \<and> 0 < resp_height (pm_response ex_pending) \<and>
   fired (snd (applyPendingMask ex_doc ex_service))
     = [SelectByMask Add \<lparr>cv_width = 4, cv_height = 2, cv_pixels = [255, 0]\<rparr>, MaskApplied 2 1] \<and>
   fired (snd (applyPendingMask ex_doc (snd (applyPendingMask ex_doc ex_service))))
     = fired (snd (applyPendingMask ex_doc ex_service)) \<and>
   fired (snd (applyPendingMask ex_doc (cancelPendingMask ex_service))) = [MaskCancelled]"
proof -
  have h: "context2d ex_doc" "pendingMask ex_service = Some ex_pending"
    "0 < resp_width (pm_response ex_pending)" "0 < resp_height (pm_response ex_pending)"
    by (simp_all add: ex_doc_def ex_service_def ex_pending_def)
  from applyMask_consumes_pending [OF h] obtain cv svc1 svc2 where
    a: "applyPendingMask ex_doc ex_service = (None, svc1)"
    and f1: "fired svc1 = fired ex_service @
               [SelectByMask Add cv, MaskApplied (resp_width (pm_response ex_pending))
                                                 (resp_height (pm_response ex_pending))]"
    and a1: "applyPendingMask ex_doc svc1 = (None, svc1)"
    and c: "cancelPendingMask ex_service = svc2"
    and f2: "fired svc2 = fired ex_service @ [MaskCancelled]"
    and a2: "applyPendingMask ex_doc svc2 = (None, svc2)"
    by blast
  have cv: "fired (snd (applyPendingMask ex_doc ex_service))
     = [SelectByMask Add \<lparr>cv_width = 4, cv_height = 2, cv_pixels = [255, 0]\<rparr>, MaskApplied 2 1]"
    by (simp add: applyPendingMask_def applyMaskToSelection_def determineSelectionOp_def
        ex_doc_def ex_service_def ex_pending_def)
  show ?thesis
    using h a a1 c f2 a2 cv by (simp add: ex_service_def)
qed

subsection \<open>Low VRAM\<close>

text \<open>
  C9, as the specification states it, fails: on a host without the WebGPU API the probe
  reports \<open>isLowVRAM\<close> together with an estimate of 0 bytes.
\<close>

theorem isLowVRAM_counterexample:
  "\<not> (isLowVRAM (checkWebGPUCapabilities NoGpuApi) \<longleftrightarrow>
        0 < estimatedVRAM (checkWebGPUCapabilities NoGpuApi) \<and>
        estimatedVRAM (checkWebGPUCapabilities NoGpuApi) < 4 * 1024 * 1024 * 1024)"
  by (simp add: checkWebGPUCapabilities_def unavailable_def)

text \<open>
  C9, amended. When the probe reports WebGPU available, the host has an adapter, the
  estimate is 4 times the adapter's \<open>maxBufferSize\<close>, and \<open>isLowVRAM\<close> holds if and only if
  the estimate is positive and below 4 GiB. When the probe reports WebGPU unavailable, the
  estimate is 0 and \<open>isLowVRAM\<close> is true.
\<close>

theorem isLowVRAM_iff:
  "(available (checkWebGPUCapabilities host) \<longrightarrow>
      (\<exists>a. host = HasAdapter a \<and>
           estimatedVRAM (checkWebGPUCapabilities host) = 4 * maxBufferSize a) \<and>
      (isLowVRAM (checkWebGPUCapabilities host) \<longleftrightarrow>
         0 < estimatedVRAM (checkWebGPUCapabilities host) \<and>
         estimatedVRAM (checkWebGPUCapabilities host) < 4 * 1024 * 1024 * 1024)) \<and>
   (\<not> available (checkWebGPUCapabilities host) \<longrightarrow>
      isLowVRAM (checkWebGPUCapabilities host) \<and>
      estimatedVRAM (checkWebGPUCapabilities host) = 0)"
  by (auto simp: checkWebGPUCapabilities_def unavailable_def LOW_VRAM_THRESHOLD_def Let_def
      split: gpu_host.splits option.splits sum.splits)

theorem isLowVRAM_iff_witness:
  "available (checkWebGPUCapabilities (gpu ex_online)) \<and>
   estimatedVRAM (checkWebGPUCapabilities (gpu ex_online)) = 1073741824 \<and>
   isLowVRAM (checkWebGPUCapabilities (gpu ex_online)) \<and>
   \<not> available (checkWebGPUCapabilities (gpu ex_offline)) \<and>
   isLowVRAM (checkWebGPUCapabilities (gpu ex_offline)) \<and>
   estimatedVRAM (checkWebGPUCapabilities (gpu ex_offline)) = 0"
  using isLowVRAM_iff [of "gpu ex_online"] isLowVRAM_iff [of "gpu ex_offline"]
  by (simp add: ex_online_def ex_offline_def checkWebGPUCapabilities_def unavailable_def
      LOW_VRAM_THRESHOLD_def)

subsection \<open>The provider is always available\<close>

text \<open>
  C10. \<open>WebGPUProvider.isAvailable()\<close> resolves to true on every host and in every state of
  the provider, whatever the capability probe reports; the probe runs only to fill the
  cache of capabilities when it is empty.
\<close>

theorem isAvailable_always_true:
  "fst (isAvailable env p) = True \<and>
   (capabilities p = None \<longrightarrow>
      capabilities (snd (isAvailable env p)) = Some (checkWebGPUCapabilities (gpu env))) \<and>
   (capabilities p \<noteq> None \<longrightarrow> snd (isAvailable env p) = p)"
  by (simp add: isAvailable_def Let_def)

theorem isAvailable_always_true_witness:
  "\<not> available (checkWebGPUCapabilities (gpu ex_offline)) \<and>
   capabilities ex_provider = None \<and>
   fst (isAvailable ex_offline ex_provider) = True \<and>
   capabilities (snd (isAvailable ex_offline ex_provider))
     = Some (unavailable ''WebGPU API not available in this browser'')"
  using isAvailable_always_true [of ex_offline ex_provider]
  by (simp add: ex_offline_def ex_provider_def new_WebGPUProvider_def
      checkWebGPUCapabilities_def unavailable_def)

end
